theory Spec2Isabelle
  imports Complex_Main "HOL-Library.AList"
begin

section \<open>Data model\<close>

text \<open>
  The types of \<^verbatim>\<open>frontend/src/types/index.ts\<close>. A TypeScript \<^verbatim>\<open>number\<close> that holds a
  bound, a difficulty or a ratio is a \<^typ>\<open>real\<close> (the arithmetic of the engine is read over
  the reals, except in the section on the selector in double arithmetic, where the
  rounding of IEEE doubles decides what is returned); a \<^verbatim>\<open>number\<close> that only counts is a
  \<^typ>\<open>nat\<close>. \<^verbatim>\<open>DifficultyLevel\<close> is a compile-time annotation only: the engine stores
  values such as \<^verbatim>\<open>2.7\<close> in fields of that type, so bounds and difficulties are reals.
\<close>

datatype Dimension = LowLevelBinary | ControlFlow | HardwareIO | CodeReading | Decomposition

datatype AssessmentPhase = Exploration | Refinement | Completion

record DimensionState =
  lowerBound :: real
  upperBound :: real
  tested :: bool
  questionCount :: nat
  correctCount :: nat

text \<open>
  The types of \<^verbatim>\<open>server/lib/hint-analysis.ts\<close>. The field \<^verbatim>\<open>id\<close> of a HintEvent is
  \<open>eventId\<close> here; \<^verbatim>\<open>null\<close> is \<open>None\<close>. A \<^verbatim>\<open>Record<string, _>\<close> is an association
  list in the order the keys were first written, the order \<^verbatim>\<open>Object.entries\<close> lists them.
\<close>

datatype HintType = Conceptual | Syntactical | Structural | Example | Elimination

datatype SubsequentAction = AnsweredCorrectly | AnsweredWrong | AskedAnotherHint | StillWorking

record HintEvent =
  eventId :: string
  questionId :: string
  hintType :: HintType
  timeIntoQuestionMs :: real
  subsequentAction :: "SubsequentAction option"
  timeAfterHintMs :: "real option"

datatype HelpSeekingStyle = QuickToAsk | Reluctant | Balanced

datatype LearningMode = PatternMatching | TheoryFirst | NeedsScaffolding | SyntaxFocused

record HintProfile =
  helpSeekingStyle :: HelpSeekingStyle
  mostEffectiveHintType :: string
  preferredLearningMode :: LearningMode
  hintEffectiveness :: real
  totalHintsUsed :: nat
  avgTimeToAskHint :: real
  hintTypeDistribution :: "(string \<times> nat) list"

datatype Source = Bank | AI

text \<open>
  The object \<^verbatim>\<open>selectNextQuestion\<close> returns. It is declared before
  \<^verbatim>\<open>QuestionResponse\<close>, which has a field \<^verbatim>\<open>dimension\<close> too: the unqualified
  \<open>dimension\<close> is the field of the response, \<open>QuestionSpec.dimension\<close> the field of
  this record.
\<close>

record QuestionSpec =
  dimension :: Dimension
  targetDifficulty :: int
  source :: Source
  questionType :: string

text \<open>
  \<^verbatim>\<open>QuestionResponse\<close>: the fields \<^verbatim>\<open>answer\<close> and \<^verbatim>\<open>keystrokes\<close> are never read by the
  engine and are left out.
\<close>

record QuestionResponse =
  questionId :: string
  dimension :: Dimension
  difficulty :: real
  correct :: bool
  partial :: bool
  timeSpentMs :: nat
  hintsUsed :: nat
  timestamp :: nat

text \<open>
  \<^verbatim>\<open>StudentProfile\<close>, with the type of the \<^verbatim>\<open>dimensions\<close> field as a parameter: a table
  of DimensionStates when the profile is read as a value, a reference when it is an object
  in the store (section \<open>updateBounds on the object store\<close>).
\<close>

record 'd ProfileOf =
  sessionId :: string
  studentName :: "string option"
  currentPhase :: AssessmentPhase
  questionsAnswered :: nat
  startTime :: nat
  dimensions :: 'd
  totalTimeMs :: nat
  hintsUsed :: nat
  partialCredits :: nat

type_synonym StudentProfile = "(Dimension \<Rightarrow> DimensionState) ProfileOf"

definition DIMENSIONS :: "Dimension list" where
  "DIMENSIONS = [LowLevelBinary, ControlFlow, HardwareIO, CodeReading, Decomposition]"

definition CONVERGENCE_THRESHOLD :: real where
  "CONVERGENCE_THRESHOLD = 0.5"

definition MIN_QUESTIONS_PER_DIMENSION :: nat where
  "MIN_QUESTIONS_PER_DIMENSION = 3"

definition EXPLORATION_QUESTIONS_MIN :: nat where
  "EXPLORATION_QUESTIONS_MIN = 5"

section \<open>updateBounds\<close>

text \<open>
  The accuracy \<^verbatim>\<open>questionCount > 0 ? correctCount / questionCount : 0.5\<close>, written out
  in \<^verbatim>\<open>updateBounds\<close>, \<^verbatim>\<open>calculateConfidence\<close> and \<^verbatim>\<open>getEstimatedLevel\<close>.
\<close>

definition accuracy :: "DimensionState \<Rightarrow> real" where
  "accuracy s =
     (if questionCount s > 0 then real (correctCount s) / real (questionCount s) else 0.5)"

text \<open>
  The three verdict branches of \<^verbatim>\<open>updateBounds\<close> (lines 113 to 168). The argument
  \<open>acc\<close> is \<^verbatim>\<open>currentAccuracy\<close>, computed before the counts change; \<open>s\<close> is
  \<^verbatim>\<open>dimState\<close> after \<^verbatim>\<open>tested = true\<close> and \<^verbatim>\<open>questionCount++\<close>.
\<close>

definition applyCorrect :: "real \<Rightarrow> DimensionState \<Rightarrow> real \<Rightarrow> DimensionState" where
  "applyCorrect acc s d =
     (let s1 = s\<lparr>correctCount := correctCount s + 1\<rparr>;
          newLowerBound = max (lowerBound s1) (d - 0.3);
          s2 = s1\<lparr>lowerBound := max 1 (min 5 newLowerBound)\<rparr>
      in if acc > 0.6
         then (let newUpperBound = min 5 (d + 1.5)
               in s2\<lparr>upperBound := max (upperBound s2) newUpperBound\<rparr>)
         else s2)"

definition applyPartial :: "DimensionState \<Rightarrow> real \<Rightarrow> DimensionState" where
  "applyPartial s d =
     (let partialLevel = d - 0.5;
          s1 = s\<lparr>lowerBound := max (lowerBound s) (max 1 (partialLevel * 0.8))\<rparr>
      in s1\<lparr>upperBound := min (upperBound s1) (min 5 (d + 0.5))\<rparr>)"

definition applyWrong :: "real \<Rightarrow> DimensionState \<Rightarrow> real \<Rightarrow> DimensionState" where
  "applyWrong acc s d =
     (if acc > 0.7 \<and> questionCount s \<ge> 3
      then (let newUpper = max (lowerBound s + 0.3) (d - 0.5)
            in s\<lparr>upperBound := min (upperBound s) newUpper\<rparr>)
      else (let newUpper = max (lowerBound s) (d - 0.5);
                s1 = s\<lparr>upperBound := min (upperBound s) newUpper\<rparr>
            in if acc < 0.4
               then (let newLowerBound = max 1 (d - 1.5)
                     in s1\<lparr>lowerBound := min (lowerBound s1) newLowerBound\<rparr>)
               else s1))"

definition applyVerdict :: "real \<Rightarrow> DimensionState \<Rightarrow> QuestionResponse \<Rightarrow> DimensionState" where
  "applyVerdict acc s r =
     (if correct r then applyCorrect acc s (difficulty r)
      else if partial r then applyPartial s (difficulty r)
      else applyWrong acc s (difficulty r))"

text \<open>Lines 171 and 172: both bounds are clamped to the scale.\<close>

definition clampBounds :: "DimensionState \<Rightarrow> DimensionState" where
  "clampBounds s =
     (let s1 = s\<lparr>lowerBound := max 1 (min 5 (lowerBound s))\<rparr>
      in s1\<lparr>upperBound := max 1 (min 5 (upperBound s1))\<rparr>)"

text \<open>Lines 175 to 185: crossed bounds are resolved towards the bound the verdict supports.\<close>

definition resolveInversion :: "QuestionResponse \<Rightarrow> DimensionState \<Rightarrow> DimensionState" where
  "resolveInversion r s =
     (if lowerBound s > upperBound s
      then (let avg = (lowerBound s + upperBound s) / 2
            in if correct r
               then s\<lparr>upperBound := max (lowerBound s) avg\<rparr>
               else s\<lparr>lowerBound := min (upperBound s) avg\<rparr>)
      else s)"

text \<open>
  Everything \<^verbatim>\<open>updateBounds\<close> does to the object \<^verbatim>\<open>dimState\<close>, in the order of the
  source: accuracy first, then \<^verbatim>\<open>tested\<close> and \<^verbatim>\<open>questionCount\<close>, the verdict branch, the
  clamp and the resolution of crossed bounds.
\<close>

definition updateDimState :: "DimensionState \<Rightarrow> QuestionResponse \<Rightarrow> DimensionState" where
  "updateDimState s r =
     (let currentAccuracy = accuracy s;
          s1 = s\<lparr>tested := True\<rparr>;
          s2 = s1\<lparr>questionCount := questionCount s1 + 1\<rparr>
      in resolveInversion r (clampBounds (applyVerdict currentAccuracy s2 r)))"

text \<open>
  The profile \<^verbatim>\<open>updateBounds\<close> returns, read as a value: the DimensionState of
  \<^verbatim>\<open>response.dimension\<close> is the updated one, every other field is that of the argument.
\<close>

definition updateBounds :: "StudentProfile \<Rightarrow> QuestionResponse \<Rightarrow> StudentProfile" where
  "updateBounds profile response =
     profile\<lparr>dimensions := (dimensions profile)
       (dimension response :=
          updateDimState (dimensions profile (dimension response)) response)\<rparr>"

text \<open>\<^verbatim>\<open>createStudentProfile\<close>; the argument \<open>now\<close> is the value of \<^verbatim>\<open>Date.now()\<close>.\<close>

definition initialDimState :: DimensionState where
  "initialDimState =
     \<lparr>lowerBound = 1, upperBound = 5, tested = False, questionCount = 0, correctCount = 0\<rparr>"

definition createStudentProfile :: "string \<Rightarrow> string option \<Rightarrow> nat \<Rightarrow> StudentProfile" where
  "createStudentProfile sid name now =
     \<lparr>sessionId = sid, studentName = name, currentPhase = Exploration,
      questionsAnswered = 0, startTime = now, dimensions = (\<lambda>_. initialDimState),
      totalTimeMs = 0, hintsUsed = 0, partialCredits = 0\<rparr>"

section \<open>Phase, completion gate and confidence\<close>

definition determinePhase :: "StudentProfile \<Rightarrow> AssessmentPhase" where
  "determinePhase profile =
     (if questionsAnswered profile < EXPLORATION_QUESTIONS_MIN then Exploration
      else
        (let allDimensionsTested = list_all (\<lambda>dim. tested (dimensions profile dim)) DIMENSIONS
         in if \<not> allDimensionsTested then Exploration
            else
              (let allConverged =
                     list_all
                       (\<lambda>dim. let state = dimensions profile dim;
                                  rng = upperBound state - lowerBound state
                              in rng \<le> CONVERGENCE_THRESHOLD \<and>
                                 questionCount state \<ge> MIN_QUESTIONS_PER_DIMENSION)
                       DIMENSIONS
               in if allConverged then Completion else Refinement)))"

definition shouldCompleteAssessment :: "StudentProfile \<Rightarrow> bool" where
  "shouldCompleteAssessment profile =
     (if questionsAnswered profile \<ge> 25 then True
      else if currentPhase profile = Completion then True
      else
        (let allConverged =
               list_all
                 (\<lambda>dim. let state = dimensions profile dim;
                            rng = upperBound state - lowerBound state
                        in rng \<le> CONVERGENCE_THRESHOLD)
                 DIMENSIONS;
             minQuestionsReached =
               (questionsAnswered profile \<ge>
                  EXPLORATION_QUESTIONS_MIN + length DIMENSIONS * MIN_QUESTIONS_PER_DIMENSION)
         in allConverged \<and> minQuestionsReached))"

definition calculateConfidence :: "DimensionState \<Rightarrow> real" where
  "calculateConfidence dimState =
     (let rng = upperBound dimState - lowerBound dimState;
          rangeConfidence = 1 - rng / 4;
          questionConfidence = min (real (questionCount dimState) / 6) 1;
          accuracyConfidence = accuracy dimState
      in rangeConfidence * 0.5 + questionConfidence * 0.3 + accuracyConfidence * 0.2)"

section \<open>Question selection\<close>

text \<open>
  \<^verbatim>\<open>Math.round\<close> rounds to the nearest integer, a half towards positive infinity.
\<close>

definition jsRound :: "real \<Rightarrow> int" where
  "jsRound x = \<lfloor>x + 1 / 2\<rfloor>"

definition clampDifficulty :: "real \<Rightarrow> int" where
  "clampDifficulty v = max 1 (min 5 (jsRound v))"

definition getEstimatedLevel :: "DimensionState \<Rightarrow> int" where
  "getEstimatedLevel dimState =
     (let weight = (if accuracy dimState > 0.6 then 0.6 else 0.4);
          estimated = lowerBound dimState * weight + upperBound dimState * (1 - weight)
      in clampDifficulty estimated)"

text \<open>
  \<^verbatim>\<open>findMostUncertainDimension\<close>: the loop over \<^verbatim>\<open>DIMENSIONS\<close> is a fold whose state is
  the pair of the local variables \<^verbatim>\<open>maxUncertainty\<close> and \<^verbatim>\<open>mostUncertainDim\<close>
  (\<^verbatim>\<open>null\<close> is \<open>None\<close>). In this section the adjusted uncertainty is the exact real
  sum; the next section gives the same functions with the rounding of double arithmetic,
  which decides between dimensions whose sums are closer than one unit in the last place.
\<close>

definition adjustedUncertainty :: "StudentProfile \<Rightarrow> Dimension \<Rightarrow> real" where
  "adjustedUncertainty profile dimn =
     (let state = dimensions profile dimn;
          uncertainty = upperBound state - lowerBound state
      in uncertainty + 1 / (real (questionCount state) + 1))"

definition uncertaintyStep ::
  "StudentProfile \<Rightarrow> real \<times> Dimension option \<Rightarrow> Dimension \<Rightarrow> real \<times> Dimension option" where
  "uncertaintyStep profile acc dimn =
     (case acc of (maxUncertainty, mostUncertainDim) \<Rightarrow>
        if adjustedUncertainty profile dimn > maxUncertainty
        then (adjustedUncertainty profile dimn, Some dimn)
        else (maxUncertainty, mostUncertainDim))"

definition findMostUncertainDimension :: "StudentProfile \<Rightarrow> Dimension option" where
  "findMostUncertainDimension profile =
     snd (foldl (uncertaintyStep profile) (0, None) DIMENSIONS)"

text \<open>
  \<^verbatim>\<open>getQuestionTypeForDimension\<close>; every list of \<open>typeMap\<close> is non-empty, so
  \<^verbatim>\<open>types[0]\<close> is its head.
\<close>

fun typeMap :: "Dimension \<Rightarrow> string list" where
  "typeMap LowLevelBinary = [''oneLiner'', ''multipleChoice'', ''trace'']"
| "typeMap ControlFlow = [''trace'', ''codeIDE'', ''multipleChoice'']"
| "typeMap HardwareIO = [''codeIDE'', ''multipleChoice'', ''trace'']"
| "typeMap CodeReading = [''trace'', ''multipleChoice'']"
| "typeMap Decomposition = [''codeIDE'', ''multipleChoice'']"

definition getQuestionTypeForDimension :: "Dimension \<Rightarrow> AssessmentPhase \<Rightarrow> string" where
  "getQuestionTypeForDimension dimn phase =
     (let types = typeMap dimn
      in if phase = Exploration
         then (if ''multipleChoice'' \<in> set types then ''multipleChoice'' else hd types)
         else hd types)"

text \<open>The three return statements of \<^verbatim>\<open>selectNextQuestion\<close>.\<close>

definition explorationSpec :: "Dimension \<Rightarrow> QuestionSpec" where
  "explorationSpec targetDim =
     \<lparr>QuestionSpec.dimension = targetDim, targetDifficulty = 3, source = Bank,
      questionType = getQuestionTypeForDimension targetDim Exploration\<rparr>"

definition refinementSpec :: "StudentProfile \<Rightarrow> Dimension \<Rightarrow> QuestionSpec" where
  "refinementSpec profile mostUncertain =
     (let dimState = dimensions profile mostUncertain;
          targetDifficulty = jsRound ((lowerBound dimState + upperBound dimState) / 2);
          rng = upperBound dimState - lowerBound dimState;
          useAI = (rng \<le> 2 \<or> questionCount dimState \<ge> 3)
      in \<lparr>QuestionSpec.dimension = mostUncertain,
          targetDifficulty = clampDifficulty (of_int targetDifficulty),
          source = (if useAI then AI else Bank),
          questionType = getQuestionTypeForDimension mostUncertain Refinement\<rparr>)"

text \<open>
  The fallback. \<open>rnd\<close> is the value of \<^verbatim>\<open>Math.random()\<close>, a number in \<open>[0, 1)\<close>, so the
  index \<^verbatim>\<open>Math.floor(rnd * DIMENSIONS.length)\<close> is below the length of the list.
\<close>

definition verificationSpec :: "StudentProfile \<Rightarrow> real \<Rightarrow> QuestionSpec" where
  "verificationSpec profile rnd =
     (let randomDim = DIMENSIONS ! nat \<lfloor>rnd * real (length DIMENSIONS)\<rfloor>;
          dimState = dimensions profile randomDim
      in \<lparr>QuestionSpec.dimension = randomDim,
          targetDifficulty = clampDifficulty (lowerBound dimState),
          source = Bank,
          questionType = getQuestionTypeForDimension randomDim Completion\<rparr>)"

text \<open>
  \<^verbatim>\<open>selectNextQuestion\<close>. Its parameters \<^verbatim>\<open>questionBank\<close> and
  \<^verbatim>\<open>aiGenerationCallback\<close> are not used by its body and are left out; \<open>rnd\<close> is the
  value \<^verbatim>\<open>Math.random()\<close> returns if the fallback is reached.
\<close>

definition selectNextQuestion :: "StudentProfile \<Rightarrow> real \<Rightarrow> QuestionSpec" where
  "selectNextQuestion profile rnd =
     (let untestedDimensions = filter (\<lambda>dim. \<not> tested (dimensions profile dim)) DIMENSIONS
      in case untestedDimensions of
           targetDim # _ \<Rightarrow> explorationSpec targetDim
         | [] \<Rightarrow>
             (case findMostUncertainDimension profile of
                Some mostUncertain \<Rightarrow> refinementSpec profile mostUncertain
              | None \<Rightarrow> verificationSpec profile rnd))"

section \<open>The selector in double arithmetic\<close>

text \<open>
  A JavaScript \<^verbatim>\<open>number\<close> is an IEEE 754 binary64 value, and every arithmetic operation
  returns the exact result rounded to the nearest such value, a tie to the one with an even
  significand. Which dimension \<^verbatim>\<open>findMostUncertainDimension\<close> returns depends on that
  rounding: two adjusted uncertainties that differ as real numbers can be equal once
  rounded. This section models the arithmetic of \<^verbatim>\<open>selectNextQuestion\<close> with the
  rounding written out.

  \<open>roundHalfEven\<close> rounds a real to the nearest integer, a tie to the even one.
\<close>

definition roundHalfEven :: "real \<Rightarrow> int" where
  "roundHalfEven x =
     (let n = \<lfloor>x\<rfloor>
      in if x - of_int n < 1 / 2 then n
         else if x - of_int n > 1 / 2 then n + 1
         else if even n then n else n + 1)"

text \<open>
  \<open>binadeScale fuel x\<close> is the power of two \<open>s\<close> with \<open>s \<le> x < 2 * s\<close>, found by
  halving or doubling \<open>x\<close> until it lies in \<open>[1, 2)\<close>; \<open>fuel\<close> bounds the number of
  steps.
\<close>

fun binadeScale :: "nat \<Rightarrow> real \<Rightarrow> real" where
  "binadeScale 0 x = 1"
| "binadeScale (Suc fuel) x =
     (if x \<ge> 2 then 2 * binadeScale fuel (x / 2)
      else if x < 1 then binadeScale fuel (2 * x) / 2
      else 1)"

text \<open>
  \<open>fl x\<close> is the binary64 value nearest to \<open>x\<close>: the significand has 53 bits, so the
  values next to \<open>x\<close> are the multiples of \<open>u = s / 2 ^ 52\<close>. The fuel is enough for
  every \<open>x\<close> (\<open>binadeScale_bounds\<close>, \<open>fuel_enough\<close>). The exponent is not bounded:
  overflow and subnormal numbers, which begin at \<open>2 ^ 1024\<close> and below \<open>2 ^ - 1022\<close>,
  are not modelled.
\<close>

definition fl :: "real \<Rightarrow> real" where
  "fl x =
     (if x = 0 then 0
      else (let a = \<bar>x\<bar>;
                s = binadeScale (nat \<lceil>a\<rceil> + nat \<lceil>1 / a\<rceil>) a;
                u = s / 2 ^ 52
            in sgn x * of_int (roundHalfEven (a / u)) * u))"

text \<open>
  Lines 236 and 239 of \<^verbatim>\<open>findMostUncertainDimension\<close>, one rounding for each operation:
  the subtraction, the increment of the count, the division and the addition.
\<close>

definition adjustedUncertaintyIEEE :: "StudentProfile \<Rightarrow> Dimension \<Rightarrow> real" where
  "adjustedUncertaintyIEEE profile dimn =
     (let state = dimensions profile dimn;
          uncertainty = fl (upperBound state - lowerBound state)
      in fl (uncertainty + fl (1 / fl (real (questionCount state) + 1))))"

definition uncertaintyStepIEEE ::
  "StudentProfile \<Rightarrow> real \<times> Dimension option \<Rightarrow> Dimension \<Rightarrow> real \<times> Dimension option" where
  "uncertaintyStepIEEE profile acc dimn =
     (case acc of (maxUncertainty, mostUncertainDim) \<Rightarrow>
        if adjustedUncertaintyIEEE profile dimn > maxUncertainty
        then (adjustedUncertaintyIEEE profile dimn, Some dimn)
        else (maxUncertainty, mostUncertainDim))"

definition findMostUncertainDimensionIEEE :: "StudentProfile \<Rightarrow> Dimension option" where
  "findMostUncertainDimensionIEEE profile =
     snd (foldl (uncertaintyStepIEEE profile) (0, None) DIMENSIONS)"

text \<open>
  The return statements of \<^verbatim>\<open>selectNextQuestion\<close> with the rounding of lines 65 to 71:
  the sum of the bounds, its half and the range. \<^verbatim>\<open>Math.round\<close> and the comparisons are
  exact. The exploration branch has no arithmetic and is \<open>explorationSpec\<close> as before.
\<close>

definition refinementSpecIEEE :: "StudentProfile \<Rightarrow> Dimension \<Rightarrow> QuestionSpec" where
  "refinementSpecIEEE profile mostUncertain =
     (let dimState = dimensions profile mostUncertain;
          targetDifficulty = jsRound (fl (fl (lowerBound dimState + upperBound dimState) / 2));
          rng = fl (upperBound dimState - lowerBound dimState);
          useAI = (rng \<le> 2 \<or> questionCount dimState \<ge> 3)
      in \<lparr>QuestionSpec.dimension = mostUncertain,
          targetDifficulty = clampDifficulty (of_int targetDifficulty),
          source = (if useAI then AI else Bank),
          questionType = getQuestionTypeForDimension mostUncertain Refinement\<rparr>)"

definition verificationSpecIEEE :: "StudentProfile \<Rightarrow> real \<Rightarrow> QuestionSpec" where
  "verificationSpecIEEE profile rnd =
     (let randomDim = DIMENSIONS ! nat \<lfloor>fl (rnd * real (length DIMENSIONS))\<rfloor>;
          dimState = dimensions profile randomDim
      in \<lparr>QuestionSpec.dimension = randomDim,
          targetDifficulty = clampDifficulty (lowerBound dimState),
          source = Bank,
          questionType = getQuestionTypeForDimension randomDim Completion\<rparr>)"

definition selectNextQuestionIEEE :: "StudentProfile \<Rightarrow> real \<Rightarrow> QuestionSpec" where
  "selectNextQuestionIEEE profile rnd =
     (let untestedDimensions = filter (\<lambda>dim. \<not> tested (dimensions profile dim)) DIMENSIONS
      in case untestedDimensions of
           targetDim # _ \<Rightarrow> explorationSpec targetDim
         | [] \<Rightarrow>
             (case findMostUncertainDimensionIEEE profile of
                Some mostUncertain \<Rightarrow> refinementSpecIEEE profile mostUncertain
              | None \<Rightarrow> verificationSpecIEEE profile rnd))"

section \<open>One turn of the orchestrator\<close>

text \<open>
  What the handler of \<^verbatim>\<open>POST /answer\<close> in \<^verbatim>\<open>server/routes/assessment.ts\<close> does to the
  profile between \<^verbatim>\<open>updateBounds\<close> and the completion check: the session counters are
  increased (\<^verbatim>\<open>evaluation.partial\<close> and \<^verbatim>\<open>validated.timeSpentMs\<close> are the fields of the
  response) and the phase is recomputed.
\<close>

definition submitAnswer :: "StudentProfile \<Rightarrow> QuestionResponse \<Rightarrow> StudentProfile" where
  "submitAnswer profile response =
     (let u0 = updateBounds profile response;
          u1 = u0\<lparr>questionsAnswered := questionsAnswered u0 + 1\<rparr>;
          u2 = u1\<lparr>totalTimeMs := totalTimeMs u1 + timeSpentMs response\<rparr>;
          u3 = u2\<lparr>hintsUsed := hintsUsed u2 + QuestionResponse.hintsUsed response\<rparr>;
          u4 = (if partial response then u3\<lparr>partialCredits := partialCredits u3 + 1\<rparr> else u3);
          newPhase = determinePhase u4
      in u4\<lparr>currentPhase := newPhase\<rparr>)"

text \<open>
  A session: the answers are submitted one by one, each to the profile the turn before
  saved, until \<^verbatim>\<open>shouldCompleteAssessment\<close> holds. The result is the last profile and
  whether the assessment was completed.
\<close>

fun runSession :: "StudentProfile \<Rightarrow> QuestionResponse list \<Rightarrow> StudentProfile \<times> bool" where
  "runSession profile [] = (profile, False)"
| "runSession profile (response # rest) =
     (let updatedProfile = submitAnswer profile response
      in if shouldCompleteAssessment updatedProfile then (updatedProfile, True)
         else runSession updatedProfile rest)"

section \<open>updateBounds on the object store\<close>

text \<open>
  A JavaScript object is a reference. \<^verbatim>\<open>updateBounds\<close> assigns to the fields of the object
  \<^verbatim>\<open>profile.dimensions[response.dimension]\<close> and returns \<^verbatim>\<open>{ ...profile }\<close>, a new
  object whose \<^verbatim>\<open>dimensions\<close> field holds the same reference as the argument's. The store
  keeps the three kinds of objects apart: profile objects (their \<^verbatim>\<open>dimensions\<close> field is
  an address), the \<^verbatim>\<open>dimensions\<close> tables (one address for each dimension) and the
  DimensionState objects. \<open>nextAddr\<close> is the next address the allocator hands out.
\<close>

type_synonym addr = nat

record store =
  profileObjs :: "addr \<rightharpoonup> addr ProfileOf"
  dimensionTables :: "addr \<rightharpoonup> (Dimension \<Rightarrow> addr)"
  dimStateObjs :: "addr \<rightharpoonup> DimensionState"
  nextAddr :: addr

definition emptyStore :: store where
  "emptyStore =
     \<lparr>profileObjs = Map.empty, dimensionTables = Map.empty, dimStateObjs = Map.empty,
      nextAddr = 0\<rparr>"

text \<open>
  The profile behind a reference, read as a value. \<open>None\<close> stands for a dangling
  reference, which a JavaScript program cannot hold.
\<close>

definition readProfile :: "store \<Rightarrow> addr \<Rightarrow> StudentProfile option" where
  "readProfile h a =
     (case profileObjs h a of
        None \<Rightarrow> None
      | Some po \<Rightarrow>
          (case dimensionTables h (dimensions po) of
             None \<Rightarrow> None
           | Some tbl \<Rightarrow>
               if list_all (\<lambda>dim. dimStateObjs h (tbl dim) \<noteq> None) DIMENSIONS
               then Some \<lparr>sessionId = sessionId po, studentName = studentName po,
                          currentPhase = currentPhase po,
                          questionsAnswered = questionsAnswered po,
                          startTime = startTime po,
                          dimensions = (\<lambda>dim. the (dimStateObjs h (tbl dim))),
                          totalTimeMs = totalTimeMs po, hintsUsed = hintsUsed po,
                          partialCredits = partialCredits po\<rparr>
               else None))"

text \<open>
  \<^verbatim>\<open>updateBounds\<close> on the store: the DimensionState object of the response's dimension is
  overwritten in place with the result of \<open>updateDimState\<close>; the returned reference is a
  newly allocated copy of the profile object.
\<close>

definition updateBoundsStore ::
  "store \<Rightarrow> addr \<Rightarrow> QuestionResponse \<Rightarrow> (store \<times> addr) option" where
  "updateBoundsStore h profile response =
     (case profileObjs h profile of
        None \<Rightarrow> None
      | Some po \<Rightarrow>
          (case dimensionTables h (dimensions po) of
             None \<Rightarrow> None
           | Some tbl \<Rightarrow>
               (case dimStateObjs h (tbl (dimension response)) of
                  None \<Rightarrow> None
                | Some dimState \<Rightarrow>
                    (let h1 = h\<lparr>dimStateObjs := (dimStateObjs h)
                                 (tbl (dimension response) \<mapsto> updateDimState dimState response)\<rparr>;
                         ret = nextAddr h1;
                         h2 = h1\<lparr>profileObjs := (profileObjs h1)(ret \<mapsto> po),
                                nextAddr := ret + 1\<rparr>
                     in Some (h2, ret)))))"

text \<open>
  The objects \<^verbatim>\<open>createStudentProfile\<close> allocates: the profile object, its table and one
  copy \<^verbatim>\<open>{ ...initialDimState }\<close> for each dimension.
\<close>

fun dimIndex :: "Dimension \<Rightarrow> nat" where
  "dimIndex LowLevelBinary = 0"
| "dimIndex ControlFlow = 1"
| "dimIndex HardwareIO = 2"
| "dimIndex CodeReading = 3"
| "dimIndex Decomposition = 4"

definition createStudentProfileStore ::
  "store \<Rightarrow> string \<Rightarrow> string option \<Rightarrow> nat \<Rightarrow> store \<times> addr" where
  "createStudentProfileStore h sid name now =
     (let base = nextAddr h;
          tbl = (\<lambda>dim. base + dimIndex dim);
          states = foldl (\<lambda>m dim. m(tbl dim \<mapsto> initialDimState)) (dimStateObjs h) DIMENSIONS;
          po = \<lparr>sessionId = sid, studentName = name, currentPhase = Exploration,
                questionsAnswered = 0, startTime = now, dimensions = base + 5,
                totalTimeMs = 0, hintsUsed = 0, partialCredits = 0\<rparr>
      in (h\<lparr>profileObjs := (profileObjs h)(base + 6 \<mapsto> po),
            dimensionTables := (dimensionTables h)(base + 5 \<mapsto> tbl),
            dimStateObjs := states,
            nextAddr := base + 7\<rparr>,
          base + 6))"

text \<open>
  A profile reference is well formed when its objects exist, the five dimensions have five
  different DimensionState objects, and the allocator's next address is unused.
\<close>

definition wfProfileAt :: "store \<Rightarrow> addr \<Rightarrow> bool" where
  "wfProfileAt h a =
     (case profileObjs h a of
        None \<Rightarrow> False
      | Some po \<Rightarrow>
          (case dimensionTables h (dimensions po) of
             None \<Rightarrow> False
           | Some tbl \<Rightarrow>
               list_all (\<lambda>dim. dimStateObjs h (tbl dim) \<noteq> None) DIMENSIONS \<and>
               distinct (map tbl DIMENSIONS) \<and>
               profileObjs h (nextAddr h) = None))"

section \<open>analyzeHintBehavior\<close>

fun hintTypeName :: "HintType \<Rightarrow> string" where
  "hintTypeName Conceptual = ''conceptual''"
| "hintTypeName Syntactical = ''syntactical''"
| "hintTypeName Structural = ''structural''"
| "hintTypeName Example = ''example''"
| "hintTypeName Elimination = ''elimination''"

text \<open>
  The body of the first loop: an entry \<^verbatim>\<open>{ correct, total }\<close> is the pair
  \<open>(correct, total)\<close>.
\<close>

definition countSuccess ::
  "(string \<times> nat \<times> nat) list \<Rightarrow> HintEvent \<Rightarrow> (string \<times> nat \<times> nat) list" where
  "countSuccess hintTypeSuccess event =
     (let k = hintTypeName (hintType event);
          t1 = (if map_of hintTypeSuccess k = None
                then AList.update k (0, 0) hintTypeSuccess else hintTypeSuccess);
          t2 = AList.map_entry k (\<lambda>(c, t). (c, t + 1)) t1
      in if subsequentAction event = Some AnsweredCorrectly
         then AList.map_entry k (\<lambda>(c, t). (c + 1, t)) t2
         else t2)"

text \<open>
  The body of the second loop; the state is the pair of \<^verbatim>\<open>mostEffectiveType\<close> and
  \<^verbatim>\<open>highestSuccessRate\<close>.
\<close>

definition effectivenessStep ::
  "string \<times> real \<Rightarrow> string \<times> nat \<times> nat \<Rightarrow> string \<times> real" where
  "effectivenessStep acc entry =
     (case acc of (mostEffectiveType, highestSuccessRate) \<Rightarrow>
      case entry of (type, c, t) \<Rightarrow>
        (let successRate = (if t > 0 then real c / real t else 0)
         in if successRate > highestSuccessRate then (type, successRate)
            else (mostEffectiveType, highestSuccessRate)))"

definition countType :: "(string \<times> nat) list \<Rightarrow> HintEvent \<Rightarrow> (string \<times> nat) list" where
  "countType distribution event =
     (let k = hintTypeName (hintType event)
      in AList.update k
           ((case map_of distribution k of None \<Rightarrow> 0 | Some n \<Rightarrow> n) + 1)
           distribution)"

text \<open>
  \<^verbatim>\<open>Object.entries(...).sort((a, b) => b[1] - a[1])[0]?.[0] || 'conceptual'\<close>: the sort
  is stable and descending in the count, as \<open>sort_key\<close> on the negated count is.
\<close>

definition mostUsedTypeOf :: "(string \<times> nat) list \<Rightarrow> string" where
  "mostUsedTypeOf distribution =
     (case sort_key (\<lambda>(k, n). - int n) distribution of
        [] \<Rightarrow> ''conceptual''
      | (k, n) # _ \<Rightarrow> if k = [] then ''conceptual'' else k)"

definition analyzeHintBehavior :: "HintEvent list \<Rightarrow> HintProfile" where
  "analyzeHintBehavior events =
     (if length events = 0
      then \<lparr>helpSeekingStyle = Balanced, mostEffectiveHintType = ''none'',
            preferredLearningMode = TheoryFirst, hintEffectiveness = 0,
            totalHintsUsed = 0, avgTimeToAskHint = 0, hintTypeDistribution = []\<rparr>
      else
        (let avgTimeToAskMs =
               foldl (\<lambda>sum e. sum + timeIntoQuestionMs e) 0 events / real (length events);
             avgTimeToAskSec = avgTimeToAskMs / 1000;
             style = (if avgTimeToAskSec < 30 then QuickToAsk
                      else if avgTimeToAskSec > 120 then Reluctant else Balanced);
             hintTypeSuccess = foldl countSuccess [] events;
             mostEffectiveType = fst (foldl effectivenessStep (''none'', 0) hintTypeSuccess);
             distribution = foldl countType [] events;
             mostUsedType = mostUsedTypeOf distribution;
             mode = (if mostUsedType = ''example'' then PatternMatching
                     else if mostUsedType = ''conceptual'' then TheoryFirst
                     else if mostUsedType = ''structural'' then NeedsScaffolding
                     else SyntaxFocused);
             answeredAfterHint =
               length (filter (\<lambda>e. subsequentAction e = Some AnsweredCorrectly) events);
             effectiveness = (if length events > 0
                              then real answeredAfterHint / real (length events) else 0)
         in \<lparr>helpSeekingStyle = style, mostEffectiveHintType = mostEffectiveType,
             preferredLearningMode = mode, hintEffectiveness = effectiveness,
             totalHintsUsed = length events, avgTimeToAskHint = avgTimeToAskSec,
             hintTypeDistribution = distribution\<rparr>))"

section \<open>Example inputs\<close>

definition freshProfile :: StudentProfile where
  "freshProfile = createStudentProfile ''session'' None 0"

definition answerAt :: "Dimension \<Rightarrow> real \<Rightarrow> bool \<Rightarrow> bool \<Rightarrow> QuestionResponse" where
  "answerAt dimn d c pt =
     \<lparr>questionId = ''q'', dimension = dimn, difficulty = d, correct = c, partial = pt,
      timeSpentMs = 1000, hintsUsed = 0, timestamp = 0\<rparr>"

definition wrongAt3 :: QuestionResponse where
  "wrongAt3 = answerAt ControlFlow 3 False False"

definition correctAt3 :: QuestionResponse where
  "correctAt3 = answerAt ControlFlow 3 True False"

definition correctAt5 :: QuestionResponse where
  "correctAt5 = answerAt ControlFlow 5 True False"

definition partialAt1 :: QuestionResponse where
  "partialAt1 = answerAt ControlFlow 1 False True"

definition partialAt3 :: QuestionResponse where
  "partialAt3 = answerAt ControlFlow 3 False True"

definition convergedProfile :: StudentProfile where
  "convergedProfile =
     freshProfile\<lparr>questionsAnswered := 20,
       dimensions := (\<lambda>_. \<lparr>lowerBound = 3, upperBound = 3.5, tested = True,
                              questionCount = 4, correctCount = 2\<rparr>)\<rparr>"

definition freshStore :: "store \<times> addr" where
  "freshStore = createStudentProfileStore emptyStore ''session'' None 0"

text \<open>
  A profile in which every dimension is tested. The lowerBound of \<open>lowLevelBinary\<close> is
  the binary64 value of \<^verbatim>\<open>3 - 0.3\<close> and that of \<open>controlFlow\<close> the binary64 value
  of \<^verbatim>\<open>2 - 0.3\<close>: the states after a correct answer at difficulty 3 and a wrong one at
  5, and after a correct answer at 2 and a wrong one at 4. The other three dimensions are
  in the state after one wrong answer at difficulty 3.
\<close>

definition roundingProfile :: StudentProfile where
  "roundingProfile =
     freshProfile\<lparr>questionsAnswered := 7,
       dimensions :=
         (\<lambda>_. \<lparr>lowerBound = 1, upperBound = 2.5, tested = True,
                 questionCount = 1, correctCount = 0\<rparr>)
         (LowLevelBinary :=
            \<lparr>lowerBound = 3039929748475085 / 1125899906842624, upperBound = 4.5,
             tested = True, questionCount = 2, correctCount = 1\<rparr>,
          ControlFlow :=
            \<lparr>lowerBound = 7656119366529843 / 4503599627370496, upperBound = 3.5,
             tested = True, questionCount = 2, correctCount = 1\<rparr>)\<rparr>"

section \<open>The steps of updateBounds, field by field\<close>

lemma clampBounds_fields:
  "tested (clampBounds s) = tested s"
  "questionCount (clampBounds s) = questionCount s"
  "correctCount (clampBounds s) = correctCount s"
  "lowerBound (clampBounds s) = max 1 (min 5 (lowerBound s))"
  "upperBound (clampBounds s) = max 1 (min 5 (upperBound s))"
  by (simp_all add: clampBounds_def Let_def)

lemma clampBounds_range:
  "1 \<le> lowerBound (clampBounds s) \<and> lowerBound (clampBounds s) \<le> 5 \<and>
   1 \<le> upperBound (clampBounds s) \<and> upperBound (clampBounds s) \<le> 5"
  by (simp add: clampBounds_fields)


lemma resolveInversion_ordered:
  "lowerBound (resolveInversion r s) \<le> upperBound (resolveInversion r s)"
  by (simp add: resolveInversion_def Let_def)

lemma resolveInversion_range:
  assumes "1 \<le> lowerBound s" "lowerBound s \<le> 5" "1 \<le> upperBound s" "upperBound s \<le> 5"
  shows "1 \<le> lowerBound (resolveInversion r s) \<and> upperBound (resolveInversion r s) \<le> 5"
  using assms by (simp add: resolveInversion_def Let_def)


lemma resolveInversion_wrong_bounds:
  assumes "\<not> correct r"
  shows "upperBound (resolveInversion r s) = upperBound s"
    and "lowerBound (resolveInversion r s) = min (lowerBound s) (upperBound s)"
  using assms by (simp_all add: resolveInversion_def Let_def)



lemma applyPartial_bounds:
  "lowerBound (applyPartial s d) = max (lowerBound s) (max 1 ((d - 0.5) * 0.8))"
  "upperBound (applyPartial s d) = min (upperBound s) (min 5 (d + 0.5))"
  by (simp_all add: applyPartial_def Let_def)

lemma updateDimState_valid:
  "1 \<le> lowerBound (updateDimState s r) \<and>
   lowerBound (updateDimState s r) \<le> upperBound (updateDimState s r) \<and>
   upperBound (updateDimState s r) \<le> 5"
  unfolding updateDimState_def Let_def
  using clampBounds_range resolveInversion_range resolveInversion_ordered by blast



lemma updateDimState_partial_bounds:
  assumes "\<not> correct r" "partial r"
  shows "upperBound (updateDimState s r) =
           max 1 (min 5 (min (upperBound s) (min 5 (difficulty r + 0.5))))"
    and "lowerBound (updateDimState s r) =
           min (max 1 (min 5 (max (lowerBound s) (max 1 ((difficulty r - 0.5) * 0.8)))))
               (max 1 (min 5 (min (upperBound s) (min 5 (difficulty r + 0.5)))))"
  using assms
  by (simp_all add: updateDimState_def Let_def resolveInversion_wrong_bounds clampBounds_fields
      applyVerdict_def applyPartial_bounds)

lemma updateBounds_target:
  "dimensions (updateBounds p r) (dimension r) = updateDimState (dimensions p (dimension r)) r"
  by (simp add: updateBounds_def)

lemma fresh_bounds:
  "lowerBound (dimensions (createStudentProfile sid name now) d) = 1"
  "upperBound (dimensions (createStudentProfile sid name now) d) = 5"
  "questionCount (dimensions (createStudentProfile sid name now) d) = 0"
  "correctCount (dimensions (createStudentProfile sid name now) d) = 0"
  "tested (dimensions (createStudentProfile sid name now) d) = False"
  by (simp_all add: createStudentProfile_def initialDimState_def)

lemma answerAt_fields:
  "dimension (answerAt dimn d c pt) = dimn"
  "difficulty (answerAt dimn d c pt) = d"
  "correct (answerAt dimn d c pt) = c"
  "partial (answerAt dimn d c pt) = pt"
  by (simp_all add: answerAt_def)

section \<open>The bounds invariant\<close>

text \<open>
  C1. If the DimensionState a response targets satisfies
  \<open>1 \<le> lowerBound \<le> upperBound \<le> 5\<close> and the difficulty of the response lies in
  \<open>[1, 5]\<close>, then whatever the verdict (the response \<open>r\<close> is arbitrary, so its flags
  \<open>correct\<close> and \<open>partial\<close> are), the targeted DimensionState of the profile
  \<open>updateBounds\<close> returns satisfies \<open>1 \<le> lowerBound \<le> upperBound \<le> 5\<close> again.
  The clamp and the resolution of crossed bounds establish this on their own
  (\<open>updateDimState_valid\<close>).
\<close>

theorem updateBounds_preserves_invariant:
  assumes "1 \<le> lowerBound (dimensions p (dimension r))"
    and "lowerBound (dimensions p (dimension r)) \<le> upperBound (dimensions p (dimension r))"
    and "upperBound (dimensions p (dimension r)) \<le> 5"
    and "1 \<le> difficulty r" and "difficulty r \<le> 5"
  shows "1 \<le> lowerBound (dimensions (updateBounds p r) (dimension r)) \<and>
         lowerBound (dimensions (updateBounds p r) (dimension r))
           \<le> upperBound (dimensions (updateBounds p r) (dimension r)) \<and>
         upperBound (dimensions (updateBounds p r) (dimension r)) \<le> 5"
  by (simp only: updateBounds_target updateDimState_valid)

theorem updateBounds_preserves_invariant_witness:
  "1 \<le> lowerBound (dimensions freshProfile (dimension wrongAt3)) \<and>
   lowerBound (dimensions freshProfile (dimension wrongAt3))
     \<le> upperBound (dimensions freshProfile (dimension wrongAt3)) \<and>
   upperBound (dimensions freshProfile (dimension wrongAt3)) \<le> 5 \<and>
   1 \<le> difficulty wrongAt3 \<and> difficulty wrongAt3 \<le> 5 \<and>
   1 \<le> lowerBound (dimensions (updateBounds freshProfile wrongAt3) (dimension wrongAt3)) \<and>
   lowerBound (dimensions (updateBounds freshProfile wrongAt3) (dimension wrongAt3))
     \<le> upperBound (dimensions (updateBounds freshProfile wrongAt3) (dimension wrongAt3)) \<and>
   upperBound (dimensions (updateBounds freshProfile wrongAt3) (dimension wrongAt3)) \<le> 5"
proof -
  have h1: "1 \<le> lowerBound (dimensions freshProfile (dimension wrongAt3))"
    and h2: "lowerBound (dimensions freshProfile (dimension wrongAt3))
               \<le> upperBound (dimensions freshProfile (dimension wrongAt3))"
    and h3: "upperBound (dimensions freshProfile (dimension wrongAt3)) \<le> 5"
    by (simp_all add: freshProfile_def fresh_bounds)
  have h4: "1 \<le> difficulty wrongAt3" and h5: "difficulty wrongAt3 \<le> 5"
    by (simp_all add: wrongAt3_def answerAt_fields)
  show ?thesis
    using h1 h2 h3 h4 h5 updateBounds_preserves_invariant [OF h1 h2 h3 h4 h5] by simp
qed

section \<open>The effect of a correct answer\<close>



section \<open>The effect of a partial answer\<close>

lemma partial_arith:
  fixes L U d :: real
  assumes "1 \<le> L" "L \<le> U" "U \<le> 5" "1 \<le> d" "d \<le> 5"
  shows "max 1 (min 5 (min U (min 5 (d + 0.5)))) \<le> U"
    and "L \<le> d + 0.5 \<Longrightarrow>
           L \<le> min (max 1 (min 5 (max L (max 1 ((d - 0.5) * 0.8)))))
                    (max 1 (min 5 (min U (min 5 (d + 0.5)))))"
    and "d + 0.5 < L \<Longrightarrow>
           min (max 1 (min 5 (max L (max 1 ((d - 0.5) * 0.8)))))
               (max 1 (min 5 (min U (min 5 (d + 0.5))))) = d + 0.5"
    and "d + 0.5 < L \<Longrightarrow> max 1 (min 5 (min U (min 5 (d + 0.5)))) = d + 0.5"
  using assms by (simp_all add: min_def max_def)

lemma after_correctAt5:
  "lowerBound (dimensions (updateBounds freshProfile correctAt5) ControlFlow) = 4.7"
  "upperBound (dimensions (updateBounds freshProfile correctAt5) ControlFlow) = 5"
  by (simp_all add: updateBounds_def updateDimState_def applyVerdict_def applyCorrect_def
      accuracy_def clampBounds_def resolveInversion_def Let_def freshProfile_def fresh_bounds
      correctAt5_def answerAt_fields)

text \<open>
  C5, as stated, fails. A fresh profile answered correctly at difficulty 5 has the bounds
  \<open>[4.7, 5]\<close> for that dimension. A partial answer at difficulty 1 then leaves the
  lowerBound at 4.7 and lowers the upperBound to 1.5; the bounds cross, and the resolution
  step, which trusts the upper bound on every verdict that is not correct, sets the
  lowerBound to 1.5: below the previous lowerBound.
\<close>

theorem updateBounds_partial_counterexample:
  "\<not> correct partialAt1 \<and> partial partialAt1 \<and>
   1 \<le> difficulty partialAt1 \<and> difficulty partialAt1 \<le> 5 \<and>
   1 \<le> lowerBound (dimensions (updateBounds freshProfile correctAt5) (dimension partialAt1)) \<and>
   lowerBound (dimensions (updateBounds freshProfile correctAt5) (dimension partialAt1))
     \<le> upperBound (dimensions (updateBounds freshProfile correctAt5) (dimension partialAt1)) \<and>
   upperBound (dimensions (updateBounds freshProfile correctAt5) (dimension partialAt1)) \<le> 5 \<and>
   lowerBound (dimensions (updateBounds (updateBounds freshProfile correctAt5) partialAt1)
                 (dimension partialAt1))
     < lowerBound (dimensions (updateBounds freshProfile correctAt5) (dimension partialAt1))"
proof -
  have f: "dimension partialAt1 = ControlFlow" "difficulty partialAt1 = 1"
    "\<not> correct partialAt1" "partial partialAt1"
    by (simp_all add: partialAt1_def answerAt_fields)
  have "lowerBound (dimensions (updateBounds (updateBounds freshProfile correctAt5) partialAt1)
                 ControlFlow) = 1.5"
    using updateBounds_target [of "updateBounds freshProfile correctAt5" partialAt1]
    by (simp add: f updateDimState_partial_bounds after_correctAt5)
  then show ?thesis
    by (simp add: f after_correctAt5)
qed

text \<open>
  C5, amended. For a partial verdict at a difficulty \<open>d\<close> in \<open>[1, 5]\<close> on a
  DimensionState with \<open>1 \<le> L \<le> U \<le> 5\<close>: the new upperBound is never above \<open>U\<close>;
  the new lowerBound is never below \<open>L\<close> when \<open>L \<le> d + 0.5\<close>; and when
  \<open>d + 0.5 < L\<close> the bounds cross and both end at \<open>d + 0.5\<close>.
\<close>

theorem updateBounds_partial_effect:
  assumes "\<not> correct r" and "partial r"
    and "1 \<le> lowerBound (dimensions p (dimension r))"
    and "lowerBound (dimensions p (dimension r)) \<le> upperBound (dimensions p (dimension r))"
    and "upperBound (dimensions p (dimension r)) \<le> 5"
    and "1 \<le> difficulty r" and "difficulty r \<le> 5"
  shows "upperBound (dimensions (updateBounds p r) (dimension r))
           \<le> upperBound (dimensions p (dimension r)) \<and>
         (lowerBound (dimensions p (dimension r)) \<le> difficulty r + 0.5 \<longrightarrow>
            lowerBound (dimensions p (dimension r))
              \<le> lowerBound (dimensions (updateBounds p r) (dimension r))) \<and>
         (difficulty r + 0.5 < lowerBound (dimensions p (dimension r)) \<longrightarrow>
            lowerBound (dimensions (updateBounds p r) (dimension r)) = difficulty r + 0.5 \<and>
            upperBound (dimensions (updateBounds p r) (dimension r)) = difficulty r + 0.5)"
  unfolding updateBounds_target updateDimState_partial_bounds [OF assms(1,2)]
  using partial_arith [OF assms(3-7)] by blast

theorem updateBounds_partial_effect_witness:
  "\<not> correct partialAt3 \<and> partial partialAt3 \<and>
   1 \<le> lowerBound (dimensions freshProfile (dimension partialAt3)) \<and>
   lowerBound (dimensions freshProfile (dimension partialAt3))
     \<le> upperBound (dimensions freshProfile (dimension partialAt3)) \<and>
   upperBound (dimensions freshProfile (dimension partialAt3)) \<le> 5 \<and>
   1 \<le> difficulty partialAt3 \<and> difficulty partialAt3 \<le> 5 \<and>
   lowerBound (dimensions freshProfile (dimension partialAt3)) \<le> difficulty partialAt3 + 0.5 \<and>
   upperBound (dimensions (updateBounds freshProfile partialAt3) (dimension partialAt3))
     \<le> upperBound (dimensions freshProfile (dimension partialAt3)) \<and>
   lowerBound (dimensions freshProfile (dimension partialAt3))
     \<le> lowerBound (dimensions (updateBounds freshProfile partialAt3) (dimension partialAt3))"
proof -
  have v: "\<not> correct partialAt3" "partial partialAt3"
    by (simp_all add: partialAt3_def answerAt_fields)
  have b: "1 \<le> lowerBound (dimensions freshProfile (dimension partialAt3))"
    "lowerBound (dimensions freshProfile (dimension partialAt3))
       \<le> upperBound (dimensions freshProfile (dimension partialAt3))"
    "upperBound (dimensions freshProfile (dimension partialAt3)) \<le> 5"
    by (simp_all add: freshProfile_def fresh_bounds)
  have d: "1 \<le> difficulty partialAt3" "difficulty partialAt3 \<le> 5"
    by (simp_all add: partialAt3_def answerAt_fields)
  have l: "lowerBound (dimensions freshProfile (dimension partialAt3))
             \<le> difficulty partialAt3 + 0.5"
    by (simp add: freshProfile_def fresh_bounds partialAt3_def answerAt_fields)
  show ?thesis
    using v b d l updateBounds_partial_effect [OF v b d] by blast
qed

section \<open>Confidence\<close>

lemma calculateConfidence_eq:
  "calculateConfidence s =
     (1 - (upperBound s - lowerBound s) / 4) * 0.5 + min (real (questionCount s) / 6) 1 * 0.3
       + accuracy s * 0.2"
  by (simp add: calculateConfidence_def Let_def)

text \<open>
  C4, as stated, fails. With the bounds \<open>[1, 5]\<close> and \<open>correctCount = 0\<close> held fixed,
  the confidence at \<open>questionCount = 0\<close> is 0.1 (the accuracy defaults to 0.5) and at
  \<open>questionCount = 1\<close> it is 0.05 (the accuracy is 0): it decreases.
\<close>

theorem calculateConfidence_counterexample:
  "lowerBound (initialDimState\<lparr>questionCount := 1\<rparr>) = lowerBound initialDimState \<and>
   upperBound (initialDimState\<lparr>questionCount := 1\<rparr>) = upperBound initialDimState \<and>
   correctCount (initialDimState\<lparr>questionCount := 1\<rparr>) = correctCount initialDimState \<and>
   questionCount initialDimState \<le> questionCount (initialDimState\<lparr>questionCount := 1\<rparr>) \<and>
   calculateConfidence (initialDimState\<lparr>questionCount := 1\<rparr>)
     < calculateConfidence initialDimState"
  by (simp add: calculateConfidence_eq accuracy_def initialDimState_def)

text \<open>
  C4, amended. Between two DimensionStates with the same bounds, the confidence does not
  decrease when the questionCount does not decrease and the observed accuracy
  (\<open>correctCount / questionCount\<close>, 0.5 when \<open>questionCount = 0\<close>) does not decrease.
\<close>

theorem calculateConfidence_mono:
  assumes "lowerBound s1 = lowerBound s2" and "upperBound s1 = upperBound s2"
    and "questionCount s1 \<le> questionCount s2"
    and "accuracy s1 \<le> accuracy s2"
  shows "calculateConfidence s1 \<le> calculateConfidence s2"
proof -
  have "min (real (questionCount s1) / 6) 1 \<le> min (real (questionCount s2) / 6) 1"
    using assms(3) by (simp add: min_def)
  then show ?thesis
    using assms(1,2,4) by (simp add: calculateConfidence_eq)
qed

theorem calculateConfidence_mono_witness:
  "lowerBound (initialDimState\<lparr>questionCount := 1, correctCount := 1\<rparr>)
     = lowerBound (initialDimState\<lparr>questionCount := 2, correctCount := 2\<rparr>) \<and>
   upperBound (initialDimState\<lparr>questionCount := 1, correctCount := 1\<rparr>)
     = upperBound (initialDimState\<lparr>questionCount := 2, correctCount := 2\<rparr>) \<and>
   questionCount (initialDimState\<lparr>questionCount := 1, correctCount := 1\<rparr>)
     \<le> questionCount (initialDimState\<lparr>questionCount := 2, correctCount := 2\<rparr>) \<and>
   accuracy (initialDimState\<lparr>questionCount := 1, correctCount := 1\<rparr>)
     \<le> accuracy (initialDimState\<lparr>questionCount := 2, correctCount := 2\<rparr>) \<and>
   calculateConfidence (initialDimState\<lparr>questionCount := 1, correctCount := 1\<rparr>)
     \<le> calculateConfidence (initialDimState\<lparr>questionCount := 2, correctCount := 2\<rparr>)"
proof -
  have h1: "lowerBound (initialDimState\<lparr>questionCount := 1, correctCount := 1\<rparr>)
              = lowerBound (initialDimState\<lparr>questionCount := 2, correctCount := 2\<rparr>)"
    and h2: "upperBound (initialDimState\<lparr>questionCount := 1, correctCount := 1\<rparr>)
              = upperBound (initialDimState\<lparr>questionCount := 2, correctCount := 2\<rparr>)"
    and h3: "questionCount (initialDimState\<lparr>questionCount := 1, correctCount := 1\<rparr>)
              \<le> questionCount (initialDimState\<lparr>questionCount := 2, correctCount := 2\<rparr>)"
    and h4: "accuracy (initialDimState\<lparr>questionCount := 1, correctCount := 1\<rparr>)
              \<le> accuracy (initialDimState\<lparr>questionCount := 2, correctCount := 2\<rparr>)"
    by (simp_all add: accuracy_def)
  show ?thesis
    using h1 h2 h3 h4 calculateConfidence_mono [OF h1 h2 h3 h4] by blast
qed

section \<open>The completion gate\<close>

lemma questionsAnswered_updateBounds:
  "questionsAnswered (updateBounds p r) = questionsAnswered p"
  by (simp add: updateBounds_def)

lemma questionsAnswered_submitAnswer:
  "questionsAnswered (submitAnswer p r) = questionsAnswered p + 1"
  by (simp add: submitAnswer_def Let_def questionsAnswered_updateBounds)

lemma hard_cap: "25 \<le> questionsAnswered p \<Longrightarrow> shouldCompleteAssessment p"
  by (simp add: shouldCompleteAssessment_def)

lemma runSession_completes:
  "questionsAnswered p < 25 \<Longrightarrow> 25 \<le> questionsAnswered p + length rs \<Longrightarrow>
     snd (runSession p rs) \<and> questionsAnswered (fst (runSession p rs)) \<le> 25"
proof (induction rs arbitrary: p)
  case Nil
  then show ?case by simp
next
  case (Cons r rs)
  let ?u = "submitAnswer p r"
  have q: "questionsAnswered ?u = questionsAnswered p + 1"
    by (rule questionsAnswered_submitAnswer)
  show ?case
  proof (cases "shouldCompleteAssessment ?u")
    case True
    then show ?thesis using Cons.prems q by (simp add: Let_def)
  next
    case False
    then have "questionsAnswered ?u < 25"
      using hard_cap [of ?u] by (meson not_le)
    moreover have "25 \<le> questionsAnswered ?u + length rs"
      using Cons.prems q by simp
    ultimately have "snd (runSession ?u rs) \<and> questionsAnswered (fst (runSession ?u rs)) \<le> 25"
      by (rule Cons.IH)
    then show ?thesis using False by (simp add: Let_def)
  qed
qed

text \<open>
  C3. With 25 or more questions answered, \<open>shouldCompleteAssessment\<close> is true whatever
  the phase, the bounds and the counts are. Each turn of the orchestrator increases
  \<open>questionsAnswered\<close> by one. Hence a session that starts below the cap and is given
  enough answers to reach it, whatever they are, is completed by the gate, and at
  completion no more than 25 questions have been answered.
\<close>

theorem hard_cap_terminates:
  "(25 \<le> questionsAnswered p \<longrightarrow> shouldCompleteAssessment p) \<and>
   questionsAnswered (submitAnswer p r) = questionsAnswered p + 1 \<and>
   (questionsAnswered p < 25 \<and> 25 \<le> questionsAnswered p + length rs \<longrightarrow>
      snd (runSession p rs) \<and> questionsAnswered (fst (runSession p rs)) \<le> 25)"
  using hard_cap questionsAnswered_submitAnswer runSession_completes by blast

theorem hard_cap_terminates_witness:
  "25 \<le> questionsAnswered (freshProfile\<lparr>questionsAnswered := 25\<rparr>) \<and>
   shouldCompleteAssessment (freshProfile\<lparr>questionsAnswered := 25\<rparr>) \<and>
   questionsAnswered freshProfile < 25 \<and>
   25 \<le> questionsAnswered freshProfile + length (replicate 25 wrongAt3) \<and>
   snd (runSession freshProfile (replicate 25 wrongAt3)) \<and>
   questionsAnswered (fst (runSession freshProfile (replicate 25 wrongAt3))) \<le> 25"
proof -
  have a: "25 \<le> questionsAnswered (freshProfile\<lparr>questionsAnswered := 25\<rparr>)"
    by simp
  have b: "questionsAnswered freshProfile < 25 \<and>
           25 \<le> questionsAnswered freshProfile + length (replicate 25 wrongAt3)"
    by (simp add: freshProfile_def createStudentProfile_def)
  show ?thesis
    using a b
      hard_cap_terminates [of "freshProfile\<lparr>questionsAnswered := 25\<rparr>" wrongAt3 "[]"]
      hard_cap_terminates [of freshProfile wrongAt3 "replicate 25 wrongAt3"]
    by blast
qed

section \<open>The phase\<close>

lemma list_all_DIMENSIONS: "list_all P DIMENSIONS = (\<forall>d. P d)"
proof
  assume a: "list_all P DIMENSIONS"
  show "\<forall>d. P d"
  proof
    fix d show "P d" using a by (cases d) (simp_all add: DIMENSIONS_def)
  qed
next
  assume "\<forall>d. P d"
  then show "list_all P DIMENSIONS" by (simp add: DIMENSIONS_def)
qed

text \<open>
  C6. \<open>determinePhase\<close> returns exploration exactly when fewer than 5 questions have
  been answered or some dimension is untested. With at least 5 questions answered and
  every dimension tested, it returns completion exactly when every dimension has a range
  of at most 0.5 and a questionCount of at least 3, and refinement exactly when not.
\<close>

theorem determinePhase_spec:
  "(determinePhase p = Exploration \<longleftrightarrow>
      (questionsAnswered p < 5 \<or> (\<exists>d. \<not> tested (dimensions p d)))) \<and>
   (5 \<le> questionsAnswered p \<and> (\<forall>d. tested (dimensions p d)) \<longrightarrow>
      (determinePhase p = Completion \<longleftrightarrow>
         (\<forall>d. upperBound (dimensions p d) - lowerBound (dimensions p d) \<le> 0.5 \<and>
              3 \<le> questionCount (dimensions p d))) \<and>
      (determinePhase p = Refinement \<longleftrightarrow>
         \<not> (\<forall>d. upperBound (dimensions p d) - lowerBound (dimensions p d) \<le> 0.5 \<and>
                3 \<le> questionCount (dimensions p d))))"
  by (auto simp: determinePhase_def list_all_DIMENSIONS Let_def EXPLORATION_QUESTIONS_MIN_def
      CONVERGENCE_THRESHOLD_def MIN_QUESTIONS_PER_DIMENSION_def)

theorem determinePhase_spec_witness:
  "5 \<le> questionsAnswered convergedProfile \<and>
   (\<forall>d. tested (dimensions convergedProfile d)) \<and>
   (\<forall>d. upperBound (dimensions convergedProfile d) - lowerBound (dimensions convergedProfile d)
           \<le> 0.5 \<and>
        3 \<le> questionCount (dimensions convergedProfile d)) \<and>
   determinePhase convergedProfile = Completion \<and>
   determinePhase convergedProfile \<noteq> Exploration"
proof -
  have h: "5 \<le> questionsAnswered convergedProfile \<and>
           (\<forall>d. tested (dimensions convergedProfile d))"
    by (simp add: convergedProfile_def)
  have c: "\<forall>d. upperBound (dimensions convergedProfile d)
                  - lowerBound (dimensions convergedProfile d) \<le> 0.5 \<and>
               3 \<le> questionCount (dimensions convergedProfile d)"
    by (simp add: convergedProfile_def)
  show ?thesis
    using h c determinePhase_spec [of convergedProfile] by simp
qed

section \<open>The most uncertain dimension\<close>

lemma set_DIMENSIONS: "set DIMENSIONS = UNIV"
proof -
  have "d \<in> set DIMENSIONS" for d
    by (cases d) (simp_all add: DIMENSIONS_def)
  then show ?thesis by blast
qed

lemma dimIndex_DIMENSIONS: "dimIndex d < length DIMENSIONS \<and> DIMENSIONS ! dimIndex d = d"
  by (cases d) (simp_all add: DIMENSIONS_def)

lemma before_in_DIMENSIONS:
  assumes "DIMENSIONS = ys @ d # zs" and "dimIndex d' < dimIndex d"
  shows "d' \<in> set ys"
proof -
  have "sorted (map dimIndex DIMENSIONS)"
    by (simp add: DIMENSIONS_def)
  then have "sorted (map dimIndex ys @ dimIndex d # map dimIndex zs)"
    by (simp add: assms(1))
  then have later: "\<forall>z\<in>set zs. dimIndex d \<le> dimIndex z"
    by (auto simp: sorted_append)
  have "d' \<in> set (ys @ d # zs)"
    using set_DIMENSIONS assms(1) by (metis UNIV_I)
  then show ?thesis
    using later assms(2) by auto
qed

lemma jsRound_of_int: "jsRound (of_int n) = n"
  unfolding jsRound_def by linarith

lemma adjustedUncertainty_eq:
  "adjustedUncertainty p d =
     upperBound (dimensions p d) - lowerBound (dimensions p d)
       + 1 / (real (questionCount (dimensions p d)) + 1)"
  by (simp add: adjustedUncertainty_def Let_def)

lemma adjustedUncertainty_pos:
  assumes "lowerBound (dimensions p d) \<le> upperBound (dimensions p d)"
  shows "0 < adjustedUncertainty p d"
proof -
  have "0 < 1 / (real (questionCount (dimensions p d)) + 1)"
    by simp
  then show ?thesis
    using assms unfolding adjustedUncertainty_eq by linarith
qed

lemma uncertaintyStep_simps:
  "uncertaintyStep p (m, b) x =
     (if adjustedUncertainty p x > m then (adjustedUncertainty p x, Some x) else (m, b))"
  by (simp add: uncertaintyStep_def)

lemma uncertainty_fold:
  "case foldl (uncertaintyStep p) (0, None) xs of
     (m, None) \<Rightarrow> m = 0 \<and> (\<forall>x\<in>set xs. adjustedUncertainty p x \<le> 0)
   | (m, Some d) \<Rightarrow>
       m = adjustedUncertainty p d \<and> 0 < m \<and>
       (\<exists>ys zs. xs = ys @ d # zs \<and> (\<forall>y\<in>set ys. adjustedUncertainty p y < m) \<and>
                (\<forall>z\<in>set zs. adjustedUncertainty p z \<le> m))"
proof (induction xs rule: rev_induct)
  case Nil
  then show ?case by simp
next
  case (snoc x xs)
  obtain m b where acc: "foldl (uncertaintyStep p) (0, None) xs = (m, b)"
    by (cases "foldl (uncertaintyStep p) (0, None) xs")
  have step: "foldl (uncertaintyStep p) (0, None) (xs @ [x]) = uncertaintyStep p (m, b) x"
    by (simp add: acc)
  have all_le: "\<forall>y\<in>set xs. adjustedUncertainty p y \<le> m" and nonneg: "0 \<le> m"
    using snoc.IH unfolding acc by (cases b; fastforce)+
  show ?case
  proof (cases "adjustedUncertainty p x > m")
    case True
    have res: "foldl (uncertaintyStep p) (0, None) (xs @ [x]) = (adjustedUncertainty p x, Some x)"
      using True by (simp add: acc uncertaintyStep_simps)
    have "xs @ [x] = xs @ x # []" by simp
    moreover have "\<forall>y\<in>set xs. adjustedUncertainty p y < adjustedUncertainty p x"
      using all_le True by fastforce
    moreover have "0 < adjustedUncertainty p x"
      using nonneg True by linarith
    ultimately show ?thesis
      unfolding res by (simp del: append_Nil2) (metis empty_iff list.set(1))
  next
    case False
    have res: "foldl (uncertaintyStep p) (0, None) (xs @ [x]) = (m, b)"
      using False by (simp add: acc uncertaintyStep_simps)
    show ?thesis
    proof (cases b)
      case None
      then show ?thesis using snoc.IH False unfolding res acc by simp
    next
      case (Some d)
      then obtain ys zs where s: "xs = ys @ d # zs"
        "\<forall>y\<in>set ys. adjustedUncertainty p y < m" "\<forall>z\<in>set zs. adjustedUncertainty p z \<le> m"
        "m = adjustedUncertainty p d" "0 < m"
        using snoc.IH unfolding acc by auto
      have "xs @ [x] = ys @ d # (zs @ [x])" using s(1) by simp
      moreover have "\<forall>z\<in>set (zs @ [x]). adjustedUncertainty p z \<le> m"
        using s(3) False by auto
      ultimately have "\<exists>ys zs'. xs @ [x] = ys @ d # zs' \<and>
          (\<forall>y\<in>set ys. adjustedUncertainty p y < m) \<and>
          (\<forall>z\<in>set zs'. adjustedUncertainty p z \<le> m)"
        using s(2) by blast
      then show ?thesis
        unfolding res Some using s(4,5) by simp
    qed
  qed
qed

lemma findMostUncertainDimension_None:
  assumes "findMostUncertainDimension p = None"
  shows "\<forall>d. adjustedUncertainty p d \<le> 0"
proof -
  obtain m where acc: "foldl (uncertaintyStep p) (0, None) DIMENSIONS = (m, None)"
    using assms unfolding findMostUncertainDimension_def
    by (cases "foldl (uncertaintyStep p) (0, None) DIMENSIONS") simp
  then have "\<forall>x\<in>set DIMENSIONS. adjustedUncertainty p x \<le> 0"
    using uncertainty_fold [where p = p and xs = DIMENSIONS] by simp
  then show ?thesis by (simp add: set_DIMENSIONS)
qed

lemma findMostUncertainDimension_valid:
  assumes "\<forall>d. lowerBound (dimensions p d) \<le> upperBound (dimensions p d)"
  shows "\<exists>d. findMostUncertainDimension p = Some d"
proof (cases "findMostUncertainDimension p")
  case None
  then have "adjustedUncertainty p ControlFlow \<le> 0"
    using findMostUncertainDimension_None by blast
  then show ?thesis
    using adjustedUncertainty_pos [of p ControlFlow] assms by (simp add: not_le [symmetric])
next
  case (Some d)
  then show ?thesis by blast
qed

text \<open>
  The order of the bounds is an invariant of the engine: a fresh profile has it, and every
  turn keeps it, whatever the answer. It is the hypothesis under which the refinement
  branch of the selector is studied below.
\<close>

lemma updateBounds_other:
  "d \<noteq> dimension r \<Longrightarrow> dimensions (updateBounds p r) d = dimensions p d"
  by (simp add: updateBounds_def)

lemma updateBounds_keeps_order:
  assumes "\<forall>d. lowerBound (dimensions p d) \<le> upperBound (dimensions p d)"
  shows "\<forall>d. lowerBound (dimensions (updateBounds p r) d)
              \<le> upperBound (dimensions (updateBounds p r) d)"
proof
  fix d
  show "lowerBound (dimensions (updateBounds p r) d) \<le> upperBound (dimensions (updateBounds p r) d)"
  proof (cases "d = dimension r")
    case True
    then show ?thesis by (simp only: updateBounds_target updateDimState_valid)
  next
    case False
    then show ?thesis using assms by (simp add: updateBounds_other)
  qed
qed

lemma submitAnswer_dimensions:
  "dimensions (submitAnswer p r) = dimensions (updateBounds p r)"
  by (simp add: submitAnswer_def Let_def)

lemma runSession_keeps_order:
  "\<forall>d. lowerBound (dimensions p d) \<le> upperBound (dimensions p d) \<Longrightarrow>
   \<forall>d. lowerBound (dimensions (fst (runSession p rs)) d)
         \<le> upperBound (dimensions (fst (runSession p rs)) d)"
proof (induction rs arbitrary: p)
  case Nil
  then show ?case by simp
next
  case (Cons r rs)
  have "\<forall>d. lowerBound (dimensions (submitAnswer p r) d)
              \<le> upperBound (dimensions (submitAnswer p r) d)"
    using updateBounds_keeps_order [OF Cons.prems] by (simp add: submitAnswer_dimensions)
  then show ?case
    using Cons.IH by (simp add: Let_def)
qed

section \<open>The selector\<close>

lemma untested_first:
  assumes "filter (\<lambda>dim. \<not> tested (dimensions p dim)) DIMENSIONS = d # rest"
  shows "\<not> tested (dimensions p d) \<and> (\<forall>d'. dimIndex d' < dimIndex d \<longrightarrow> tested (dimensions p d'))"
proof -
  obtain us vs where s: "DIMENSIONS = us @ d # vs" "\<forall>u\<in>set us. tested (dimensions p u)"
    "\<not> tested (dimensions p d)"
    using assms by (auto simp: filter_eq_Cons_iff)
  show ?thesis
    using s(2,3) before_in_DIMENSIONS [OF s(1)] by blast
qed

lemma selectNextQuestion_tested:
  assumes "\<forall>d. tested (dimensions p d)"
  shows "selectNextQuestion p rnd =
           (case findMostUncertainDimension p of
              Some mostUncertain \<Rightarrow> refinementSpec p mostUncertain
            | None \<Rightarrow> verificationSpec p rnd)"
proof -
  have "filter (\<lambda>dim. \<not> tested (dimensions p dim)) DIMENSIONS = []"
    using assms by (simp add: filter_empty_conv)
  then show ?thesis
    by (simp add: selectNextQuestion_def Let_def)
qed

lemma explorationSpec_fields:
  "QuestionSpec.dimension (explorationSpec d) = d"
  "targetDifficulty (explorationSpec d) = 3"
  "source (explorationSpec d) = Bank"
  by (simp_all add: explorationSpec_def)

text \<open>
  C10. In a profile whose bounds are in order (every profile the engine produces, see
  \<open>runSession_keeps_order\<close>), the adjusted uncertainty of every dimension is strictly
  positive, so \<open>findMostUncertainDimension\<close> does not return null; and once every
  dimension is tested, \<open>selectNextQuestion\<close> returns from the refinement branch whatever
  \<^verbatim>\<open>Math.random()\<close> would return: the fallback after it is not reached.
\<close>

theorem findMostUncertainDimension_never_null:
  assumes "\<forall>d. lowerBound (dimensions p d) \<le> upperBound (dimensions p d)"
  shows "(\<forall>d. 0 < adjustedUncertainty p d) \<and>
         (\<exists>d. findMostUncertainDimension p = Some d \<and>
              ((\<forall>d'. tested (dimensions p d')) \<longrightarrow>
                 (\<forall>rnd. selectNextQuestion p rnd = refinementSpec p d)))"
proof -
  obtain d where m: "findMostUncertainDimension p = Some d"
    using findMostUncertainDimension_valid [OF assms] by blast
  have "\<forall>rnd. selectNextQuestion p rnd = refinementSpec p d" if "\<forall>d'. tested (dimensions p d')"
    using that by (simp add: selectNextQuestion_tested m)
  then show ?thesis
    using m adjustedUncertainty_pos assms by blast
qed

theorem findMostUncertainDimension_never_null_witness:
  "(\<forall>d. lowerBound (dimensions convergedProfile d) \<le> upperBound (dimensions convergedProfile d)) \<and>
   (\<forall>d'. tested (dimensions convergedProfile d')) \<and>
   (\<forall>d. 0 < adjustedUncertainty convergedProfile d) \<and>
   (\<exists>d. findMostUncertainDimension convergedProfile = Some d \<and>
        (\<forall>rnd. selectNextQuestion convergedProfile rnd = refinementSpec convergedProfile d))"
proof -
  have h: "\<forall>d. lowerBound (dimensions convergedProfile d)
                 \<le> upperBound (dimensions convergedProfile d)"
    by (simp add: convergedProfile_def)
  have t: "\<forall>d'. tested (dimensions convergedProfile d')"
    by (simp add: convergedProfile_def)
  show ?thesis
    using h t findMostUncertainDimension_never_null [OF h] by blast
qed

section \<open>The selector in double arithmetic: what is returned\<close>

lemma roundHalfEven_ge_floor: "\<lfloor>x\<rfloor> \<le> roundHalfEven x"
  by (simp add: roundHalfEven_def Let_def)

lemma binadeScale_bounds:
  "1 \<le> x * 2 ^ n \<Longrightarrow> x < 2 ^ (n + 1) \<Longrightarrow>
     0 < binadeScale n x \<and> binadeScale n x \<le> x \<and> x < 2 * binadeScale n x"
proof (induction n arbitrary: x)
  case 0
  then show ?case by simp
next
  case (Suc n)
  show ?case
  proof (cases "x \<ge> 2")
    case True
    have "1 \<le> x / 2 * 2 ^ n"
    proof -
      have "1 \<le> x / 2" using True by simp
      moreover have "(1::real) \<le> 2 ^ n" by simp
      ultimately have "1 * 1 \<le> x / 2 * 2 ^ n" by (intro mult_mono) simp_all
      then show ?thesis by simp
    qed
    moreover have "x / 2 < 2 ^ (n + 1)" using Suc.prems(2) by simp
    ultimately have "0 < binadeScale n (x / 2) \<and> binadeScale n (x / 2) \<le> x / 2 \<and>
        x / 2 < 2 * binadeScale n (x / 2)"
      by (rule Suc.IH)
    then show ?thesis using True by simp
  next
    case False
    show ?thesis
    proof (cases "x < 1")
      case True
      have "1 \<le> 2 * x * 2 ^ n" using Suc.prems(1) by (simp add: mult.commute mult.left_commute)
      moreover have "2 * x < 2 ^ (n + 1)"
      proof -
        have "2 * x < 2" using True by simp
        also have "(2::real) \<le> 2 ^ (n + 1)" by simp
        finally show ?thesis .
      qed
      ultimately have "0 < binadeScale n (2 * x) \<and> binadeScale n (2 * x) \<le> 2 * x \<and>
          2 * x < 2 * binadeScale n (2 * x)"
        by (rule Suc.IH)
      then show ?thesis using True False by simp
    next
      case False
      then show ?thesis using \<open>\<not> 2 \<le> x\<close> by simp
    qed
  qed
qed

lemma fuel_enough:
  fixes a :: real
  assumes "0 < a"
  shows "1 \<le> a * 2 ^ (nat \<lceil>a\<rceil> + nat \<lceil>1 / a\<rceil>)"
    and "a < 2 ^ (nat \<lceil>a\<rceil> + nat \<lceil>1 / a\<rceil> + 1)"
proof -
  let ?n = "nat \<lceil>a\<rceil> + nat \<lceil>1 / a\<rceil>"
  have lt: "real ?n < 2 ^ ?n" by (rule of_nat_less_two_power)
  have "a \<le> real (nat \<lceil>a\<rceil>)" by (simp add: of_nat_ceiling)
  then have "a \<le> real ?n" by simp
  then have "a < 2 ^ ?n" using lt by linarith
  moreover have "(2::real) ^ ?n \<le> 2 ^ (?n + 1)" by simp
  ultimately show "a < 2 ^ (?n + 1)" by linarith
  have "1 / a \<le> real (nat \<lceil>1 / a\<rceil>)" by (simp add: of_nat_ceiling)
  then have "1 / a \<le> real ?n" by simp
  then have "1 / a \<le> 2 ^ ?n" using lt by linarith
  then show "1 \<le> a * 2 ^ ?n" using assms by (simp add: field_simps)
qed

lemma fl_pos:
  assumes "0 < x"
  shows "0 < fl x"
proof -
  define s where "s = binadeScale (nat \<lceil>x\<rceil> + nat \<lceil>1 / x\<rceil>) x"
  have b: "0 < s \<and> s \<le> x \<and> x < 2 * s"
    unfolding s_def using binadeScale_bounds [OF fuel_enough [OF assms]] .
  define u where "u = s / 2 ^ 52"
  have u: "0 < u" using b by (simp add: u_def)
  have "1 \<le> x / u" using b by (simp add: u_def field_simps) 
  then have "1 \<le> \<lfloor>x / u\<rfloor>" by simp
  then have "1 \<le> roundHalfEven (x / u)" using roundHalfEven_ge_floor [of "x / u"] by linarith
  then have "0 < real_of_int (roundHalfEven (x / u)) * u" using u by simp
  then show ?thesis
    using assms by (simp add: fl_def Let_def s_def u_def)
qed

lemma fl_nonneg: "0 \<le> x \<Longrightarrow> 0 \<le> fl x"
  using fl_pos [of x] by (cases "x = 0") (simp_all add: fl_def less_eq_real_def)

lemma adjustedUncertaintyIEEE_pos:
  assumes "lowerBound (dimensions p d) \<le> upperBound (dimensions p d)"
  shows "0 < adjustedUncertaintyIEEE p d"
proof -
  have a: "0 \<le> fl (upperBound (dimensions p d) - lowerBound (dimensions p d))"
    using assms by (simp add: fl_nonneg)
  have "0 < fl (real (questionCount (dimensions p d)) + 1)"
    by (rule fl_pos) simp
  then have "0 < fl (1 / fl (real (questionCount (dimensions p d)) + 1))"
    by (intro fl_pos) simp
  then have "0 < fl (upperBound (dimensions p d) - lowerBound (dimensions p d))
                    + fl (1 / fl (real (questionCount (dimensions p d)) + 1))"
    using a by linarith
  then show ?thesis
    by (simp add: adjustedUncertaintyIEEE_def Let_def fl_pos)
qed

lemma uncertaintyStepIEEE_simps:
  "uncertaintyStepIEEE p (m, b) x =
     (if adjustedUncertaintyIEEE p x > m then (adjustedUncertaintyIEEE p x, Some x) else (m, b))"
  by (simp add: uncertaintyStepIEEE_def)

lemma uncertaintyIEEE_fold:
  "case foldl (uncertaintyStepIEEE p) (0, None) xs of
     (m, None) \<Rightarrow> m = 0 \<and> (\<forall>x\<in>set xs. adjustedUncertaintyIEEE p x \<le> 0)
   | (m, Some d) \<Rightarrow>
       m = adjustedUncertaintyIEEE p d \<and> 0 < m \<and>
       (\<exists>ys zs. xs = ys @ d # zs \<and> (\<forall>y\<in>set ys. adjustedUncertaintyIEEE p y < m) \<and>
                (\<forall>z\<in>set zs. adjustedUncertaintyIEEE p z \<le> m))"
proof (induction xs rule: rev_induct)
  case Nil
  then show ?case by simp
next
  case (snoc x xs)
  obtain m b where acc: "foldl (uncertaintyStepIEEE p) (0, None) xs = (m, b)"
    by (cases "foldl (uncertaintyStepIEEE p) (0, None) xs")
  have all_le: "\<forall>y\<in>set xs. adjustedUncertaintyIEEE p y \<le> m" and nonneg: "0 \<le> m"
    using snoc.IH unfolding acc by (cases b; fastforce)+
  show ?case
  proof (cases "adjustedUncertaintyIEEE p x > m")
    case True
    have res: "foldl (uncertaintyStepIEEE p) (0, None) (xs @ [x])
                 = (adjustedUncertaintyIEEE p x, Some x)"
      using True by (simp add: acc uncertaintyStepIEEE_simps)
    have "xs @ [x] = xs @ x # []" by simp
    moreover have "\<forall>y\<in>set xs. adjustedUncertaintyIEEE p y < adjustedUncertaintyIEEE p x"
      using all_le True by fastforce
    moreover have "0 < adjustedUncertaintyIEEE p x"
      using nonneg True by linarith
    ultimately show ?thesis
      unfolding res by (simp del: append_Nil2) (metis empty_iff list.set(1))
  next
    case False
    have res: "foldl (uncertaintyStepIEEE p) (0, None) (xs @ [x]) = (m, b)"
      using False by (simp add: acc uncertaintyStepIEEE_simps)
    show ?thesis
    proof (cases b)
      case None
      then show ?thesis using snoc.IH False unfolding res acc by simp
    next
      case (Some d)
      then obtain ys zs where s: "xs = ys @ d # zs"
        "\<forall>y\<in>set ys. adjustedUncertaintyIEEE p y < m"
        "\<forall>z\<in>set zs. adjustedUncertaintyIEEE p z \<le> m"
        "m = adjustedUncertaintyIEEE p d" "0 < m"
        using snoc.IH unfolding acc by auto
      have "xs @ [x] = ys @ d # (zs @ [x])" using s(1) by simp
      moreover have "\<forall>z\<in>set (zs @ [x]). adjustedUncertaintyIEEE p z \<le> m"
        using s(3) False by auto
      ultimately have "\<exists>ys zs'. xs @ [x] = ys @ d # zs' \<and>
          (\<forall>y\<in>set ys. adjustedUncertaintyIEEE p y < m) \<and>
          (\<forall>z\<in>set zs'. adjustedUncertaintyIEEE p z \<le> m)"
        using s(2) by blast
      then show ?thesis
        unfolding res Some using s(4,5) by simp
    qed
  qed
qed

lemma findMostUncertainDimensionIEEE_Some:
  assumes "findMostUncertainDimensionIEEE p = Some d"
  shows "(\<forall>d'. adjustedUncertaintyIEEE p d' \<le> adjustedUncertaintyIEEE p d) \<and>
         (\<forall>d'. dimIndex d' < dimIndex d \<longrightarrow>
               adjustedUncertaintyIEEE p d' < adjustedUncertaintyIEEE p d)"
proof -
  obtain m where acc: "foldl (uncertaintyStepIEEE p) (0, None) DIMENSIONS = (m, Some d)"
    using assms unfolding findMostUncertainDimensionIEEE_def
    by (cases "foldl (uncertaintyStepIEEE p) (0, None) DIMENSIONS") simp
  then obtain ys zs where s: "DIMENSIONS = ys @ d # zs"
    "\<forall>y\<in>set ys. adjustedUncertaintyIEEE p y < m"
    "\<forall>z\<in>set zs. adjustedUncertaintyIEEE p z \<le> m"
    "m = adjustedUncertaintyIEEE p d"
    using uncertaintyIEEE_fold [where p = p and xs = DIMENSIONS] by auto
  have "adjustedUncertaintyIEEE p d' \<le> adjustedUncertaintyIEEE p d" for d'
  proof -
    have "d' \<in> set (ys @ d # zs)" using set_DIMENSIONS s(1) by (metis UNIV_I)
    then show ?thesis using s(2,3,4) by auto
  qed
  moreover have "adjustedUncertaintyIEEE p d' < adjustedUncertaintyIEEE p d"
    if "dimIndex d' < dimIndex d" for d'
    using before_in_DIMENSIONS [OF s(1) that] s(2,4) by simp
  ultimately show ?thesis by blast
qed

lemma findMostUncertainDimensionIEEE_valid:
  assumes "\<forall>d. lowerBound (dimensions p d) \<le> upperBound (dimensions p d)"
  shows "\<exists>d. findMostUncertainDimensionIEEE p = Some d"
proof (cases "findMostUncertainDimensionIEEE p")
  case None
  then obtain m where "foldl (uncertaintyStepIEEE p) (0, None) DIMENSIONS = (m, None)"
    unfolding findMostUncertainDimensionIEEE_def
    by (cases "foldl (uncertaintyStepIEEE p) (0, None) DIMENSIONS") simp
  then have "\<forall>x\<in>set DIMENSIONS. adjustedUncertaintyIEEE p x \<le> 0"
    using uncertaintyIEEE_fold [where p = p and xs = DIMENSIONS] by simp
  then have "adjustedUncertaintyIEEE p ControlFlow \<le> 0"
    by (simp add: set_DIMENSIONS)
  then show ?thesis
    using adjustedUncertaintyIEEE_pos [of p ControlFlow] assms by (simp add: not_le [symmetric])
next
  case (Some d)
  then show ?thesis by blast
qed

lemma selectNextQuestionIEEE_untested:
  assumes "\<exists>d. \<not> tested (dimensions p d)"
  shows "\<exists>d rest. filter (\<lambda>dim. \<not> tested (dimensions p dim)) DIMENSIONS = d # rest \<and>
           selectNextQuestionIEEE p rnd = explorationSpec d"
proof -
  have "filter (\<lambda>dim. \<not> tested (dimensions p dim)) DIMENSIONS \<noteq> []"
    using assms by (simp add: filter_empty_conv set_DIMENSIONS)
  then obtain d rest where "filter (\<lambda>dim. \<not> tested (dimensions p dim)) DIMENSIONS = d # rest"
    by (cases "filter (\<lambda>dim. \<not> tested (dimensions p dim)) DIMENSIONS") auto
  then show ?thesis
    by (simp add: selectNextQuestionIEEE_def Let_def)
qed

lemma selectNextQuestionIEEE_tested:
  assumes "\<forall>d. tested (dimensions p d)"
  shows "selectNextQuestionIEEE p rnd =
           (case findMostUncertainDimensionIEEE p of
              Some mostUncertain \<Rightarrow> refinementSpecIEEE p mostUncertain
            | None \<Rightarrow> verificationSpecIEEE p rnd)"
proof -
  have "filter (\<lambda>dim. \<not> tested (dimensions p dim)) DIMENSIONS = []"
    using assms by (simp add: filter_empty_conv)
  then show ?thesis
    by (simp add: selectNextQuestionIEEE_def Let_def)
qed

lemma refinementSpecIEEE_fields:
  "QuestionSpec.dimension (refinementSpecIEEE p d) = d"
  "targetDifficulty (refinementSpecIEEE p d) =
     max 1 (min 5 (jsRound
       (fl (fl (lowerBound (dimensions p d) + upperBound (dimensions p d)) / 2))))"
  "source (refinementSpecIEEE p d) = AI \<longleftrightarrow>
     (fl (upperBound (dimensions p d) - lowerBound (dimensions p d)) \<le> 2 \<or>
      3 \<le> questionCount (dimensions p d))"
  by (simp_all add: refinementSpecIEEE_def Let_def clampDifficulty_def jsRound_of_int)

text \<open>
  The bounds of the example profile are values of the engine: the lower bounds are what
  \<^verbatim>\<open>response.difficulty - 0.3\<close> evaluates to at difficulty 3 and at difficulty 2.
\<close>

lemma roundingProfile_bounds:
  "fl (3 - fl 0.3) = 3039929748475085 / 1125899906842624"
  "fl (2 - fl 0.3) = 7656119366529843 / 4503599627370496"
  "fl (5 - fl 0.5) = 4.5"
  "fl (4 - fl 0.5) = 3.5"
  by code_simp+

lemma roundingProfile_states:
  "dimensions roundingProfile LowLevelBinary =
     \<lparr>lowerBound = 3039929748475085 / 1125899906842624, upperBound = 4.5,
      tested = True, questionCount = 2, correctCount = 1\<rparr>"
  "dimensions roundingProfile ControlFlow =
     \<lparr>lowerBound = 7656119366529843 / 4503599627370496, upperBound = 3.5,
      tested = True, questionCount = 2, correctCount = 1\<rparr>"
  "dimensions roundingProfile HardwareIO =
     \<lparr>lowerBound = 1, upperBound = 2.5, tested = True, questionCount = 1, correctCount = 0\<rparr>"
  "dimensions roundingProfile CodeReading =
     \<lparr>lowerBound = 1, upperBound = 2.5, tested = True, questionCount = 1, correctCount = 0\<rparr>"
  "dimensions roundingProfile Decomposition =
     \<lparr>lowerBound = 1, upperBound = 2.5, tested = True, questionCount = 1, correctCount = 0\<rparr>"
  by (simp_all add: roundingProfile_def)

lemma roundingProfile_computed:
  "adjustedUncertaintyIEEE roundingProfile LowLevelBinary = 4803839602528529 / 2251799813685248"
  "adjustedUncertaintyIEEE roundingProfile ControlFlow = 4803839602528529 / 2251799813685248"
  "adjustedUncertaintyIEEE roundingProfile HardwareIO = 2"
  "adjustedUncertaintyIEEE roundingProfile CodeReading = 2"
  "adjustedUncertaintyIEEE roundingProfile Decomposition = 2"
  unfolding adjustedUncertaintyIEEE_def roundingProfile_states Let_def
  by code_simp+

lemma roundingProfile_most:
  "findMostUncertainDimensionIEEE roundingProfile = Some LowLevelBinary"
  by (simp add: findMostUncertainDimensionIEEE_def DIMENSIONS_def uncertaintyStepIEEE_simps
      roundingProfile_computed)

text \<open>
  C7, as stated, fails. In \<open>roundingProfile\<close> every dimension is tested. The adjusted
  uncertainty \<open>(upperBound - lowerBound) + 1 / (questionCount + 1)\<close> of \<open>controlFlow\<close>
  is larger than that of \<open>lowLevelBinary\<close>, by \<open>2 ^ - 52\<close>. In double arithmetic both
  sums round to the same value, the comparison \<^verbatim>\<open>adjustedUncertainty > maxUncertainty\<close>
  is false for \<open>controlFlow\<close>, and the selector returns \<open>lowLevelBinary\<close>: not the
  dimension that maximizes the adjusted uncertainty.
\<close>

theorem selectNextQuestion_rounding_counterexample:
  "tested (dimensions roundingProfile LowLevelBinary) \<and>
   tested (dimensions roundingProfile ControlFlow) \<and>
   tested (dimensions roundingProfile HardwareIO) \<and>
   tested (dimensions roundingProfile CodeReading) \<and>
   tested (dimensions roundingProfile Decomposition) \<and>
   QuestionSpec.dimension (selectNextQuestionIEEE roundingProfile 0) = LowLevelBinary \<and>
   upperBound (dimensions roundingProfile LowLevelBinary)
     - lowerBound (dimensions roundingProfile LowLevelBinary)
     + 1 / (real (questionCount (dimensions roundingProfile LowLevelBinary)) + 1)
   < upperBound (dimensions roundingProfile ControlFlow)
     - lowerBound (dimensions roundingProfile ControlFlow)
     + 1 / (real (questionCount (dimensions roundingProfile ControlFlow)) + 1)"
proof -
  have t: "\<forall>d. tested (dimensions roundingProfile d)"
  proof
    fix d show "tested (dimensions roundingProfile d)"
      by (cases d) (simp_all add: roundingProfile_states)
  qed
  have "selectNextQuestionIEEE roundingProfile 0 = refinementSpecIEEE roundingProfile LowLevelBinary"
    using t by (simp add: selectNextQuestionIEEE_tested roundingProfile_most)
  then have "QuestionSpec.dimension (selectNextQuestionIEEE roundingProfile 0) = LowLevelBinary"
    by (simp add: refinementSpecIEEE_fields)
  then show ?thesis
    using t by (simp add: roundingProfile_states)
qed

text \<open>
  C7, amended. If some dimension is untested, \<open>selectNextQuestion\<close> returns an untested
  dimension before which, in the order of \<open>DIMENSIONS\<close> (\<open>dimIndex\<close> is the position in
  that list), every dimension is tested, with target difficulty 3 and source bank. If
  every dimension is tested and the bounds of every dimension are in order, it returns a
  dimension whose adjusted uncertainty \<^emph>\<open>as computed in double arithmetic\<close>,
  \<open>fl (fl (upperBound - lowerBound) + fl (1 / fl (questionCount + 1)))\<close>, is the largest
  and strictly larger than that of every dimension before it in the order; the target
  difficulty is \<^verbatim>\<open>Math.round\<close> of the computed midpoint
  \<open>fl (fl (lowerBound + upperBound) / 2)\<close>, clamped to \<open>[1, 5]\<close>; and the source is ai
  exactly when the computed range \<open>fl (upperBound - lowerBound)\<close> is at most 2 or the
  questionCount is at least 3.
\<close>

theorem selectNextQuestionIEEE_spec:
  "((\<exists>d. \<not> tested (dimensions p d)) \<longrightarrow>
      \<not> tested (dimensions p (QuestionSpec.dimension (selectNextQuestionIEEE p rnd))) \<and>
      (\<forall>d. dimIndex d < dimIndex (QuestionSpec.dimension (selectNextQuestionIEEE p rnd)) \<longrightarrow>
           tested (dimensions p d)) \<and>
      targetDifficulty (selectNextQuestionIEEE p rnd) = 3 \<and>
      source (selectNextQuestionIEEE p rnd) = Bank) \<and>
   ((\<forall>d. tested (dimensions p d)) \<and>
    (\<forall>d. lowerBound (dimensions p d) \<le> upperBound (dimensions p d)) \<longrightarrow>
      (\<forall>d. adjustedUncertaintyIEEE p d
             \<le> adjustedUncertaintyIEEE p (QuestionSpec.dimension (selectNextQuestionIEEE p rnd))) \<and>
      (\<forall>d. dimIndex d < dimIndex (QuestionSpec.dimension (selectNextQuestionIEEE p rnd)) \<longrightarrow>
           adjustedUncertaintyIEEE p d
             < adjustedUncertaintyIEEE p (QuestionSpec.dimension (selectNextQuestionIEEE p rnd))) \<and>
      targetDifficulty (selectNextQuestionIEEE p rnd) =
        max 1 (min 5 (jsRound (fl (fl
          (lowerBound (dimensions p (QuestionSpec.dimension (selectNextQuestionIEEE p rnd)))
           + upperBound (dimensions p (QuestionSpec.dimension (selectNextQuestionIEEE p rnd))))
          / 2)))) \<and>
      (source (selectNextQuestionIEEE p rnd) = AI \<longleftrightarrow>
         (fl (upperBound (dimensions p (QuestionSpec.dimension (selectNextQuestionIEEE p rnd)))
              - lowerBound (dimensions p (QuestionSpec.dimension (selectNextQuestionIEEE p rnd))))
            \<le> 2 \<or>
          3 \<le> questionCount
                (dimensions p (QuestionSpec.dimension (selectNextQuestionIEEE p rnd))))))"
proof (intro conjI impI)
  assume "\<exists>d. \<not> tested (dimensions p d)"
  then obtain d rest where
    f: "filter (\<lambda>dim. \<not> tested (dimensions p dim)) DIMENSIONS = d # rest"
    and s: "selectNextQuestionIEEE p rnd = explorationSpec d"
    using selectNextQuestionIEEE_untested by blast
  show "\<not> tested (dimensions p (QuestionSpec.dimension (selectNextQuestionIEEE p rnd)))"
    "\<forall>d. dimIndex d < dimIndex (QuestionSpec.dimension (selectNextQuestionIEEE p rnd)) \<longrightarrow>
           tested (dimensions p d)"
    "targetDifficulty (selectNextQuestionIEEE p rnd) = 3"
    "source (selectNextQuestionIEEE p rnd) = Bank"
    using untested_first [OF f] by (simp_all add: s explorationSpec_fields)
next
  assume a: "(\<forall>d. tested (dimensions p d)) \<and>
    (\<forall>d. lowerBound (dimensions p d) \<le> upperBound (dimensions p d))"
  then obtain d where m: "findMostUncertainDimensionIEEE p = Some d"
    using findMostUncertainDimensionIEEE_valid by blast
  have s: "selectNextQuestionIEEE p rnd = refinementSpecIEEE p d"
    using a by (simp add: selectNextQuestionIEEE_tested m)
  show "\<forall>d. adjustedUncertaintyIEEE p d
             \<le> adjustedUncertaintyIEEE p (QuestionSpec.dimension (selectNextQuestionIEEE p rnd))"
    "\<forall>d. dimIndex d < dimIndex (QuestionSpec.dimension (selectNextQuestionIEEE p rnd)) \<longrightarrow>
           adjustedUncertaintyIEEE p d
             < adjustedUncertaintyIEEE p (QuestionSpec.dimension (selectNextQuestionIEEE p rnd))"
    using findMostUncertainDimensionIEEE_Some [OF m] by (simp_all add: s refinementSpecIEEE_fields)
  show "targetDifficulty (selectNextQuestionIEEE p rnd) =
        max 1 (min 5 (jsRound (fl (fl
          (lowerBound (dimensions p (QuestionSpec.dimension (selectNextQuestionIEEE p rnd)))
           + upperBound (dimensions p (QuestionSpec.dimension (selectNextQuestionIEEE p rnd))))
          / 2))))"
    by (simp add: s refinementSpecIEEE_fields)
  show "source (selectNextQuestionIEEE p rnd) = AI \<longleftrightarrow>
         (fl (upperBound (dimensions p (QuestionSpec.dimension (selectNextQuestionIEEE p rnd)))
              - lowerBound (dimensions p (QuestionSpec.dimension (selectNextQuestionIEEE p rnd))))
            \<le> 2 \<or>
          3 \<le> questionCount
                (dimensions p (QuestionSpec.dimension (selectNextQuestionIEEE p rnd))))"
    by (simp add: s refinementSpecIEEE_fields)
qed

theorem selectNextQuestionIEEE_spec_witness:
  "(\<exists>d. \<not> tested (dimensions freshProfile d)) \<and>
   \<not> tested (dimensions freshProfile
        (QuestionSpec.dimension (selectNextQuestionIEEE freshProfile 0))) \<and>
   targetDifficulty (selectNextQuestionIEEE freshProfile 0) = 3 \<and>
   source (selectNextQuestionIEEE freshProfile 0) = Bank \<and>
   (\<forall>d. tested (dimensions roundingProfile d)) \<and>
   (\<forall>d. lowerBound (dimensions roundingProfile d) \<le> upperBound (dimensions roundingProfile d)) \<and>
   (\<forall>d. adjustedUncertaintyIEEE roundingProfile d
          \<le> adjustedUncertaintyIEEE roundingProfile
               (QuestionSpec.dimension (selectNextQuestionIEEE roundingProfile 0))) \<and>
   targetDifficulty (selectNextQuestionIEEE roundingProfile 0) =
     max 1 (min 5 (jsRound (fl (fl
       (lowerBound (dimensions roundingProfile
            (QuestionSpec.dimension (selectNextQuestionIEEE roundingProfile 0)))
        + upperBound (dimensions roundingProfile
            (QuestionSpec.dimension (selectNextQuestionIEEE roundingProfile 0))))
       / 2))))"
proof -
  have a: "\<exists>d. \<not> tested (dimensions freshProfile d)"
    by (simp add: freshProfile_def fresh_bounds)
  have b: "(\<forall>d. tested (dimensions roundingProfile d)) \<and>
           (\<forall>d. lowerBound (dimensions roundingProfile d)
                  \<le> upperBound (dimensions roundingProfile d))"
  proof (intro conjI allI)
    fix d
    show "tested (dimensions roundingProfile d)"
      by (cases d) (simp_all add: roundingProfile_states)
    show "lowerBound (dimensions roundingProfile d) \<le> upperBound (dimensions roundingProfile d)"
      by (cases d) (simp_all add: roundingProfile_states)
  qed
  show ?thesis
    using a b selectNextQuestionIEEE_spec [of freshProfile 0]
      selectNextQuestionIEEE_spec [of roundingProfile 0]
    by blast
qed

section \<open>Aliasing in updateBounds\<close>

lemma wfProfileAt_D:
  assumes "wfProfileAt h a"
  obtains po tbl where "profileObjs h a = Some po" "dimensionTables h (dimensions po) = Some tbl"
    "\<forall>d. dimStateObjs h (tbl d) \<noteq> None" "inj tbl" "profileObjs h (nextAddr h) = None"
proof -
  obtain po where po: "profileObjs h a = Some po"
    using assms by (auto simp: wfProfileAt_def split: option.splits)
  obtain tbl where tbl: "dimensionTables h (dimensions po) = Some tbl"
    using assms po by (auto simp: wfProfileAt_def split: option.splits)
  have rest: "list_all (\<lambda>dim. dimStateObjs h (tbl dim) \<noteq> None) DIMENSIONS"
    "distinct (map tbl DIMENSIONS)" "profileObjs h (nextAddr h) = None"
    using assms po tbl by (simp_all add: wfProfileAt_def)
  have "\<forall>d. dimStateObjs h (tbl d) \<noteq> None"
    using rest(1) by (simp add: list_all_DIMENSIONS)
  moreover have "inj tbl"
    using rest(2) by (simp add: distinct_map set_DIMENSIONS)
  ultimately show ?thesis
    using that po tbl rest(3) by blast
qed

lemma readProfile_eq:
  assumes "profileObjs h a = Some po" "dimensionTables h (dimensions po) = Some tbl"
    "\<forall>d. dimStateObjs h (tbl d) \<noteq> None"
  shows "readProfile h a =
     Some \<lparr>sessionId = sessionId po, studentName = studentName po,
            currentPhase = currentPhase po, questionsAnswered = questionsAnswered po,
            startTime = startTime po,
            dimensions = (\<lambda>dim. the (dimStateObjs h (tbl dim))),
            totalTimeMs = totalTimeMs po, hintsUsed = hintsUsed po,
            partialCredits = partialCredits po\<rparr>"
  using assms by (simp add: readProfile_def list_all_DIMENSIONS)

lemma freshStore_wf: "wfProfileAt (fst freshStore) (snd freshStore)"
  by (simp add: freshStore_def createStudentProfileStore_def emptyStore_def wfProfileAt_def
      DIMENSIONS_def Let_def)

lemma freshStore_read: "readProfile (fst freshStore) (snd freshStore) = Some freshProfile"
proof -
  have "(\<lambda>dim. the (dimStateObjs (fst freshStore) (dimIndex dim))) = (\<lambda>_. initialDimState)"
  proof
    fix d show "the (dimStateObjs (fst freshStore) (dimIndex d)) = initialDimState"
      by (cases d)
        (simp_all add: freshStore_def createStudentProfileStore_def emptyStore_def DIMENSIONS_def
          Let_def)
  qed
  then show ?thesis
    by (simp add: readProfile_def freshStore_def createStudentProfileStore_def emptyStore_def
        DIMENSIONS_def Let_def freshProfile_def createStudentProfile_def)
qed

lemma freshStore_run:
  "updateBoundsStore (fst freshStore) (snd freshStore) correctAt3 =
     Some ((fst freshStore)\<lparr>dimStateObjs := (dimStateObjs (fst freshStore))
                 (1 \<mapsto> updateDimState initialDimState correctAt3),
              profileObjs := (profileObjs (fst freshStore))
                 (7 \<mapsto> the (profileObjs (fst freshStore) 6)),
              nextAddr := 8\<rparr>, 7)"
  by (simp add: updateBoundsStore_def freshStore_def createStudentProfileStore_def emptyStore_def
      DIMENSIONS_def Let_def correctAt3_def answerAt_fields)

lemma correctAt3_on_initial:
  "updateDimState initialDimState correctAt3 =
     \<lparr>lowerBound = 2.7, upperBound = 5, tested = True, questionCount = 1, correctCount = 1\<rparr>"
  by (simp add: updateDimState_def applyVerdict_def applyCorrect_def accuracy_def clampBounds_def
      resolveInversion_def Let_def initialDimState_def correctAt3_def answerAt_fields)

text \<open>
  C8, as stated, fails. \<open>freshStore\<close> holds the objects of a fresh profile. After
  \<open>updateBounds\<close> with a correct answer at difficulty 3 in \<open>controlFlow\<close>, the profile
  behind the \<^emph>\<open>argument\<close> reference no longer has its original values: its
  \<open>questionCount\<close> went from 0 to 1, \<open>tested\<close> from false to true and \<open>lowerBound\<close>
  from 1 to 2.7.
\<close>

theorem updateBounds_mutates_argument_counterexample:
  "questionCount (dimensions (the (readProfile (fst freshStore) (snd freshStore))) ControlFlow) = 0 \<and>
   \<not> tested (dimensions (the (readProfile (fst freshStore) (snd freshStore))) ControlFlow) \<and>
   lowerBound (dimensions (the (readProfile (fst freshStore) (snd freshStore))) ControlFlow) = 1 \<and>
   updateBoundsStore (fst freshStore) (snd freshStore) correctAt3 \<noteq> None \<and>
   questionCount (dimensions (the (readProfile
       (fst (the (updateBoundsStore (fst freshStore) (snd freshStore) correctAt3)))
       (snd freshStore))) ControlFlow) = 1 \<and>
   tested (dimensions (the (readProfile
       (fst (the (updateBoundsStore (fst freshStore) (snd freshStore) correctAt3)))
       (snd freshStore))) ControlFlow) \<and>
   lowerBound (dimensions (the (readProfile
       (fst (the (updateBoundsStore (fst freshStore) (snd freshStore) correctAt3)))
       (snd freshStore))) ControlFlow) = 2.7"
proof -
  have before: "map_option (\<lambda>p. dimensions p ControlFlow) (readProfile (fst freshStore) (snd freshStore))
                  = Some initialDimState"
    by (simp add: readProfile_def freshStore_def createStudentProfileStore_def emptyStore_def
        DIMENSIONS_def Let_def)
  have after: "map_option (\<lambda>p. dimensions p ControlFlow)
                 (readProfile (fst (the (updateBoundsStore (fst freshStore) (snd freshStore) correctAt3)))
                    (snd freshStore))
                  = Some (updateDimState initialDimState correctAt3)"
    unfolding freshStore_run
    by (simp add: readProfile_def freshStore_def createStudentProfileStore_def emptyStore_def
        DIMENSIONS_def Let_def)
  obtain p0 where p0: "readProfile (fst freshStore) (snd freshStore) = Some p0"
    "dimensions p0 ControlFlow = initialDimState"
    using before by auto
  obtain p1 where p1:
    "readProfile (fst (the (updateBoundsStore (fst freshStore) (snd freshStore) correctAt3)))
       (snd freshStore) = Some p1"
    "dimensions p1 ControlFlow = updateDimState initialDimState correctAt3"
    using after by auto
  have i: "questionCount initialDimState = 0" "\<not> tested initialDimState"
    "lowerBound initialDimState = 1"
    by (simp_all add: initialDimState_def)
  have "updateBoundsStore (fst freshStore) (snd freshStore) correctAt3 \<noteq> None"
    by (simp add: freshStore_run)
  then show ?thesis
    by (simp add: p0 p1 i correctAt3_on_initial)
qed

text \<open>
  C8, amended. \<open>updateBounds\<close> updates the targeted DimensionState of its argument in
  place. It returns a new profile object, different from the argument, that shares the
  DimensionStates of the argument: after the call the argument and the returned profile
  both read as the updated profile, in which only the DimensionState of the response's
  dimension differs from the profile before the call.
\<close>

theorem updateBoundsStore_shares_state:
  assumes wf: "wfProfileAt h a" and rd: "readProfile h a = Some p"
  shows "\<exists>h' ret. updateBoundsStore h a r = Some (h', ret) \<and> ret \<noteq> a \<and>
           readProfile h' a = Some (updateBounds p r) \<and>
           readProfile h' ret = Some (updateBounds p r)"
proof -
  from wf obtain po tbl where o: "profileObjs h a = Some po"
    "dimensionTables h (dimensions po) = Some tbl"
    "\<forall>d. dimStateObjs h (tbl d) \<noteq> None" "inj tbl" "profileObjs h (nextAddr h) = None"
    by (rule wfProfileAt_D)
  obtain s where s: "dimStateObjs h (tbl (dimension r)) = Some s"
    using o(3) by blast
  define h' where "h' = h\<lparr>dimStateObjs := (dimStateObjs h)(tbl (dimension r) \<mapsto> updateDimState s r),
                          profileObjs := (profileObjs h)(nextAddr h \<mapsto> po),
                          nextAddr := nextAddr h + 1\<rparr>"
  have run: "updateBoundsStore h a r = Some (h', nextAddr h)"
    by (simp add: updateBoundsStore_def o(1,2) s h'_def Let_def)
  have ne: "nextAddr h \<noteq> a"
    using o(1,5) by auto
  have p: "p = \<lparr>sessionId = sessionId po, studentName = studentName po,
            currentPhase = currentPhase po, questionsAnswered = questionsAnswered po,
            startTime = startTime po,
            dimensions = (\<lambda>dim. the (dimStateObjs h (tbl dim))),
            totalTimeMs = totalTimeMs po, hintsUsed = hintsUsed po,
            partialCredits = partialCredits po\<rparr>"
    using rd readProfile_eq [OF o(1,2,3)] by simp
  have states: "(\<lambda>dim. the (dimStateObjs h' (tbl dim))) =
      (\<lambda>dim. the (dimStateObjs h (tbl dim)))
        (dimension r := updateDimState (the (dimStateObjs h (tbl (dimension r)))) r)"
    using o(4) s by (auto simp: h'_def fun_eq_iff dest: injD)
  have ex: "\<forall>d. dimStateObjs h' (tbl d) \<noteq> None"
    using o(3) by (simp add: h'_def)
  have "readProfile h' a = Some (updateBounds p r)"
    using readProfile_eq [of h' a po tbl] o(1,2) ne ex
    by (simp add: h'_def [symmetric] states p updateBounds_def) (simp add: h'_def)
  moreover have "readProfile h' (nextAddr h) = Some (updateBounds p r)"
    using readProfile_eq [of h' "nextAddr h" po tbl] o(2) ex
    by (simp add: h'_def [symmetric] states p updateBounds_def) (simp add: h'_def)
  ultimately show ?thesis
    using run ne by blast
qed

theorem updateBoundsStore_shares_state_witness:
  "wfProfileAt (fst freshStore) (snd freshStore) \<and>
   readProfile (fst freshStore) (snd freshStore) = Some freshProfile \<and>
   (\<exists>h' ret. updateBoundsStore (fst freshStore) (snd freshStore) correctAt3 = Some (h', ret) \<and>
      ret \<noteq> snd freshStore \<and>
      readProfile h' (snd freshStore) = Some (updateBounds freshProfile correctAt3) \<and>
      readProfile h' ret = Some (updateBounds freshProfile correctAt3))"
  using freshStore_wf freshStore_read
    updateBoundsStore_shares_state [OF freshStore_wf freshStore_read, of correctAt3]
  by blast

section \<open>Hint behaviour without hints\<close>

text \<open>
  C9. On the empty list of hint events \<open>analyzeHintBehavior\<close> returns the defaults:
  style balanced, most effective hint type \<^verbatim>\<open>'none'\<close>, effectiveness 0, no hints used,
  average time to ask 0 and an empty distribution. The function is total (no branch of
  the source throws) and the empty case returns before any division.
\<close>

theorem analyzeHintBehavior_empty:
  "helpSeekingStyle (analyzeHintBehavior []) = Balanced \<and>
   mostEffectiveHintType (analyzeHintBehavior []) = ''none'' \<and>
   hintEffectiveness (analyzeHintBehavior []) = 0 \<and>
   totalHintsUsed (analyzeHintBehavior []) = 0 \<and>
   avgTimeToAskHint (analyzeHintBehavior []) = 0 \<and>
   hintTypeDistribution (analyzeHintBehavior []) = []"
  by (simp add: analyzeHintBehavior_def)

end
